theory Spec2Isabelle
  imports Main "HOL-Library.Sublist"
begin

section \<open>Values, objects and the heap\<close>

text \<open>
  The repository works on JavaScript objects. A value is one of the primitives the code
  meets (\<open>undefined\<close>, \<open>null\<close>, an integer-valued number, a string), a reference to an
  entity object, or an array of entity references (the children collection that
  \<open>buildChildrenEntityTree\<close> assigns, which is never changed once it is built). An
  object is its own properties; reading a property that is absent gives \<open>undefined\<close>.
  The heap gives each address its object; a row of a table and a hydrated entity that
  is only read are objects by themselves.
\<close>

type_synonym addr = nat

datatype val = VUndefined | VNull | VNum int | VStr string | VRef addr | VArr "addr list"

type_synonym obj = "string \<rightharpoonup> val"

type_synonym heap = "addr \<Rightarrow> obj"

definition getProp :: "obj \<Rightarrow> string \<Rightarrow> val" where
  "getProp entity name = (case entity name of None \<Rightarrow> VUndefined | Some v \<Rightarrow> v)"

text \<open>
  \<open>===\<close>: primitives are compared by value and objects by reference. An array is equal
  only to itself; the only arrays of this model are the ones the tree assembler has just
  created, which no relation-map id can be, so an array is equal to nothing.
\<close>

fun strict_eq :: "val \<Rightarrow> val \<Rightarrow> bool" where
  "strict_eq (VArr xs) w = False"
| "strict_eq v (VArr ys) = False"
| "strict_eq v w = (v = w)"

text \<open>\<open>Array.prototype.join\<close> on an array of strings.\<close>

fun js_join :: "string \<Rightarrow> string list \<Rightarrow> string" where
  "js_join sep [] = []"
| "js_join sep [x] = x"
| "js_join sep (x # y # zs) = x @ sep @ js_join sep (y # zs)"

text \<open>
  The string a value turns into when it is appended to a string with \<open>+\<close>; a number is
  an integer that JavaScript prints with all its digits.
\<close>

definition digit_char :: "nat \<Rightarrow> char" where
  "digit_char d = ''0123456789'' ! (d mod 10)"

fun string_of_nat :: "nat \<Rightarrow> string" where
  "string_of_nat n =
     (if n < 10 then [digit_char n] else string_of_nat (n div 10) @ [digit_char (n mod 10)])"

definition string_of_int :: "int \<Rightarrow> string" where
  "string_of_int i = (if i < 0 then CHR ''-'' # string_of_nat (nat (- i)) else string_of_nat (nat i))"

fun js_toString :: "val \<Rightarrow> string" where
  "js_toString VUndefined = ''undefined''"
| "js_toString VNull = ''null''"
| "js_toString (VNum i) = string_of_int i"
| "js_toString (VStr s) = s"
| "js_toString (VRef a) = ''[object Object]''"
| "js_toString (VArr xs) = js_join '','' (map (\<lambda>a. ''[object Object]'') xs)"

text \<open>\<open>String.prototype.replace(".", "_")\<close>: the first occurrence only.\<close>

fun replace_dot :: "string \<Rightarrow> string" where
  "replace_dot [] = []"
| "replace_dot (c # cs) = (if c = CHR ''.'' then CHR ''_'' # cs else c # replace_dot cs)"

section \<open>Metadata\<close>

text \<open>
  The fields of the entity metadata that \<open>TreeRepository\<close> reads. A junction or join
  column always has its referenced column (the source asserts it with
  \<open>referencedColumn!\<close>), and an entity has at least one primary column, so
  \<open>primaryColumns[0]\<close> is the first component of a pair.
\<close>

record column =
  propertyName :: string
  propertyPath :: string
  databaseName :: string
  givenDatabaseName :: "string option"

record join_column = column +
  referencedColumn :: column

record junction_metadata =
  tableName :: string
  ancestorColumns :: "join_column list"
  descendantColumns :: "join_column list"

record relation =
  relationPropertyName :: string
  joinColumns :: "join_column list"

record metadata =
  treeType :: "string option"
  targetName :: string
  closureJunctionTable :: junction_metadata
  nestedSetLeftColumn :: column
  nestedSetRightColumn :: column
  materializedPathColumn :: column
  treeParentRelation :: relation
  treeChildrenRelation :: relation
  primaryColumns :: "column \<times> column list"

text \<open>
  Modelled from the spec: the metadata service, which is not part of the sources.
  Section 6: "compute an entity's current value for any given column".
  \<open>ColumnMetadata.getEntityValue\<close> of a plain (not embedded) column reads the property
  of the column's name.
\<close>

definition getEntityValue :: "'a column_scheme \<Rightarrow> obj \<Rightarrow> val" where
  "getEntityValue column entity = getProp entity (propertyName column)"

text \<open>
  Modelled from the spec: the metadata service again (section 6: "its primary key
  column(s)"). \<open>EntityMetadata.getEntityIdMap\<close> gives the entity's primary-column
  properties, or \<open>undefined\<close> when one of them has no value.
\<close>

definition getEntityIdMap :: "metadata \<Rightarrow> obj \<Rightarrow> obj option" where
  "getEntityIdMap md entity =
     (let names = map propertyName (fst (primaryColumns md) # snd (primaryColumns md))
      in if list_all (\<lambda>n. getProp entity n \<noteq> VUndefined \<and> getProp entity n \<noteq> VNull) names
         then Some (entity |` set names) else None)"

datatype error = Error string | TypeError

section \<open>Query fragments\<close>

text \<open>
  The source writes a condition as text. The model keeps the structure of that text: one
  constructor for each shape the source concatenates, and \<open>render\<close> for the text
  itself. The flag of a column records whether the source passes its names through
  \<open>driver.escape\<close>. The text of a sub-query comes from the query builder
  (\<open>subQuery.getQuery()\<close>), which is a parameter of \<open>render\<close>; the native
  parameters that the source copies from the sub-query are the builder's own and are not
  modelled. Section "The texts of the conditions" shows the rendered texts of the
  conditions built below to be the concatenations of the source.
\<close>

record subquery =
  sq_select :: "string \<times> string"
  sq_selectAlias :: string
  sq_from :: string
  sq_fromAlias :: string
  sq_whereInIds :: "obj option"

datatype operand =
    Column bool string string
  | BareColumn bool string
  | Parameter string
  | SubQuery subquery
  | PipeWildcard operand
  | ConcatWildcard operand

datatype cond =
    Equals operand operand
  | Between operand operand operand
  | Like operand operand
  | AllOf "cond list"
  | AnyOf "cond list"
  | Parens cond

definition quoted :: "(string \<Rightarrow> string) \<Rightarrow> bool \<Rightarrow> string \<Rightarrow> string" where
  "quoted escape q name = (if q then escape name else name)"

fun render_operand :: "(string \<Rightarrow> string) \<Rightarrow> (subquery \<Rightarrow> string) \<Rightarrow> operand \<Rightarrow> string" where
  "render_operand escape getQuery (Column q a c) = quoted escape q a @ ''.'' @ quoted escape q c"
| "render_operand escape getQuery (BareColumn q c) = quoted escape q c"
| "render_operand escape getQuery (Parameter p) = '':'' @ p"
| "render_operand escape getQuery (SubQuery sq) = getQuery sq"
| "render_operand escape getQuery (PipeWildcard x) = render_operand escape getQuery x @ '' || '' @ [CHR 0x27, CHR ''%'', CHR 0x27]"
| "render_operand escape getQuery (ConcatWildcard x) =
     ''CONCAT('' @ render_operand escape getQuery x @ '', '' @ [CHR 0x27, CHR ''%'', CHR 0x27] @ '')''"

fun render :: "(string \<Rightarrow> string) \<Rightarrow> (subquery \<Rightarrow> string) \<Rightarrow> cond \<Rightarrow> string" where
  "render escape getQuery (Equals x y) =
     render_operand escape getQuery x @ '' = '' @ render_operand escape getQuery y"
| "render escape getQuery (Between x lo hi) =
     render_operand escape getQuery x @ '' BETWEEN '' @ render_operand escape getQuery lo
       @ '' AND '' @ render_operand escape getQuery hi"
| "render escape getQuery (Like x y) =
     render_operand escape getQuery x @ '' LIKE '' @ render_operand escape getQuery y"
| "render escape getQuery (AllOf cs) = js_join '' AND '' (map (render escape getQuery) cs)"
| "render escape getQuery (AnyOf cs) = js_join '' OR '' (map (render escape getQuery) cs)"
| "render escape getQuery (Parens c) = ''('' @ render escape getQuery c @ '')''"

section \<open>The query builder\<close>

text \<open>
  Modelled from the spec: the query builder, which is not part of the sources.
  Section 6: "build filtered/joined queries, execute them, [...] execute delete/insert
  statements with bound parameters". \<open>createQueryBuilder(alias)\<close> selects the
  repository's entity under an alias with no condition, \<open>innerJoin\<close> joins a table
  under an alias on a condition, \<open>where\<close> sets the condition (and adds the parameters
  given with it) and \<open>setParameters\<close> adds bound parameters. The two statements of a
  move are a delete (table, condition, parameters) and an insert (table, values).
\<close>

record select_query =
  sel_from :: string
  sel_alias :: string
  sel_join :: "(string \<times> string \<times> cond) option"
  sel_where :: cond
  sel_parameters :: obj

datatype query = Delete string cond obj | Insert string "obj list"

definition createQueryBuilder :: "metadata \<Rightarrow> string \<Rightarrow> select_query" where
  "createQueryBuilder md alias =
     \<lparr>sel_from = targetName md, sel_alias = alias, sel_join = None, sel_where = AllOf [],
      sel_parameters = Map.empty\<rparr>"

definition innerJoin :: "string \<Rightarrow> string \<Rightarrow> cond \<Rightarrow> select_query \<Rightarrow> select_query" where
  "innerJoin table alias condition qb = qb\<lparr>sel_join := Some (table, alias, condition)\<rparr>"

definition setParameters :: "obj \<Rightarrow> select_query \<Rightarrow> select_query" where
  "setParameters parameters qb = qb\<lparr>sel_parameters := sel_parameters qb ++ parameters\<rparr>"

definition whereCond :: "cond \<Rightarrow> obj \<Rightarrow> select_query \<Rightarrow> select_query" where
  "whereCond condition parameters qb = setParameters parameters (qb\<lparr>sel_where := condition\<rparr>)"

section \<open>The services of the connection\<close>

text \<open>
  The database is a table of rows for each entity target and table name. The services
  that \<open>TreeRepository\<close> calls and that are not part of it are fields of the
  connection: the driver's \<open>escape\<close>, whether the driver is an
  \<open>AbstractSqliteDriver\<close>, the text of a sub-query, the execution of a select query
  (\<open>getMany\<close>, \<open>getCount\<close>, \<open>getRawAndEntities\<close>, which also puts the hydrated
  entities on the heap), the driver's \<open>prepareHydratedValue\<close>, the execution of a
  delete or insert and \<open>save\<close>. A write may fail; a read is total.
\<close>

type_synonym database = "string \<Rightarrow> obj list"

record connection =
  escape :: "string \<Rightarrow> string"
  isAbstractSqliteDriver :: bool
  getQuery :: "subquery \<Rightarrow> string"
  getMany :: "select_query \<Rightarrow> database \<Rightarrow> obj list"
  getCount :: "select_query \<Rightarrow> database \<Rightarrow> nat"
  getRawAndEntities :: "select_query \<Rightarrow> database \<Rightarrow> heap \<Rightarrow> obj list \<times> addr list \<times> heap"
  prepareHydratedValue :: "val \<Rightarrow> column \<Rightarrow> val"
  execute :: "query \<Rightarrow> database \<Rightarrow> error + database"
  save :: "obj \<Rightarrow> database \<Rightarrow> error + database"

section \<open>Descendant and ancestor queries\<close>

definition pathSubQuery :: "metadata \<Rightarrow> obj \<Rightarrow> subquery" where
  "pathSubQuery md entity =
     \<lparr>sq_select = (targetName md, propertyPath (materializedPathColumn md)),
      sq_selectAlias = ''path'', sq_from = targetName md, sq_fromAlias = targetName md,
      sq_whereInIds = getEntityIdMap md entity\<rparr>"

definition createDescendantsQueryBuilder ::
  "connection \<Rightarrow> metadata \<Rightarrow> string \<Rightarrow> string \<Rightarrow> obj \<Rightarrow> error + select_query" where
  "createDescendantsQueryBuilder conn md alias closureTableAlias entity =
     (if treeType md = Some ''closure-table'' then
        (let joinCondition = AllOf (map (\<lambda>column.
                 Equals (Column True closureTableAlias (propertyPath column))
                        (Column True alias (propertyPath (referencedColumn column))))
               (descendantColumns (closureJunctionTable md)));
             parameters = fold (\<lambda>column ps.
                 ps(propertyName (referencedColumn column) \<mapsto> getEntityValue (referencedColumn column) entity))
               (ancestorColumns (closureJunctionTable md)) Map.empty;
             whereCondition = AllOf (map (\<lambda>column.
                 Equals (Column True closureTableAlias (propertyPath column))
                        (Parameter (propertyName (referencedColumn column))))
               (ancestorColumns (closureJunctionTable md)))
         in Inr (setParameters parameters
              (whereCond whereCondition Map.empty
                (innerJoin (tableName (closureJunctionTable md)) closureTableAlias joinCondition
                  (createQueryBuilder md alias)))))
      else if treeType md = Some ''nested-set'' then
        (let whereCondition =
               Between (Column False alias (propertyPath (nestedSetLeftColumn md)))
                       (Column False ''joined'' (propertyPath (nestedSetLeftColumn md)))
                       (Column False ''joined'' (propertyPath (nestedSetRightColumn md)));
             parameters = fold (\<lambda>joinColumn ps.
                 ps(replace_dot (propertyPath (referencedColumn joinColumn))
                      \<mapsto> getEntityValue (referencedColumn joinColumn) entity))
               (joinColumns (treeParentRelation md)) Map.empty;
             joinCondition = AllOf (map (\<lambda>joinColumn.
                 Equals (Column False ''joined'' (propertyPath (referencedColumn joinColumn)))
                        (Parameter (replace_dot (propertyPath (referencedColumn joinColumn)))))
               (joinColumns (treeParentRelation md)))
         in Inr (whereCond joinCondition parameters
              (innerJoin (targetName md) ''joined'' whereCondition (createQueryBuilder md alias))))
      else if treeType md = Some ''materialized-path'' then
        (let subQuery = pathSubQuery md entity
         in Inr (whereCond
              (if isAbstractSqliteDriver conn
               then Like (Column False alias (propertyPath (materializedPathColumn md)))
                         (PipeWildcard (SubQuery subQuery))
               else Like (Column False alias (propertyPath (materializedPathColumn md)))
                         (ConcatWildcard (SubQuery subQuery)))
              Map.empty (createQueryBuilder md alias)))
      else Inl (Error ''Supported only in tree entities''))"

definition createAncestorsQueryBuilder ::
  "connection \<Rightarrow> metadata \<Rightarrow> string \<Rightarrow> string \<Rightarrow> obj \<Rightarrow> error + select_query" where
  "createAncestorsQueryBuilder conn md alias closureTableAlias entity =
     (if treeType md = Some ''closure-table'' then
        (let joinCondition = AllOf (map (\<lambda>column.
                 Equals (Column False closureTableAlias (propertyPath column))
                        (Column False alias (propertyPath (referencedColumn column))))
               (ancestorColumns (closureJunctionTable md)));
             parameters = fold (\<lambda>column ps.
                 ps(propertyName (referencedColumn column) \<mapsto> getEntityValue (referencedColumn column) entity))
               (descendantColumns (closureJunctionTable md)) Map.empty;
             whereCondition = AllOf (map (\<lambda>column.
                 Equals (Column False closureTableAlias (propertyPath column))
                        (Parameter (propertyName (referencedColumn column))))
               (descendantColumns (closureJunctionTable md)))
         in Inr (setParameters parameters
              (whereCond whereCondition Map.empty
                (innerJoin (tableName (closureJunctionTable md)) closureTableAlias joinCondition
                  (createQueryBuilder md alias)))))
      else if treeType md = Some ''nested-set'' then
        (let joinCondition =
               Between (Column False ''joined'' (propertyPath (nestedSetLeftColumn md)))
                       (Column False alias (propertyPath (nestedSetLeftColumn md)))
                       (Column False alias (propertyPath (nestedSetRightColumn md)));
             parameters = fold (\<lambda>joinColumn ps.
                 ps(replace_dot (propertyPath (referencedColumn joinColumn))
                      \<mapsto> getEntityValue (referencedColumn joinColumn) entity))
               (joinColumns (treeParentRelation md)) Map.empty;
             whereCondition = AllOf (map (\<lambda>joinColumn.
                 Equals (Column False ''joined'' (propertyPath (referencedColumn joinColumn)))
                        (Parameter (replace_dot (propertyPath (referencedColumn joinColumn)))))
               (joinColumns (treeParentRelation md)))
         in Inr (whereCond whereCondition parameters
              (innerJoin (targetName md) ''joined'' joinCondition (createQueryBuilder md alias))))
      else if treeType md = Some ''materialized-path'' then
        (let subQuery = pathSubQuery md entity
         in Inr (whereCond
              (if isAbstractSqliteDriver conn
               then Like (SubQuery subQuery)
                         (PipeWildcard (Column False alias (propertyPath (materializedPathColumn md))))
               else Like (SubQuery subQuery)
                         (ConcatWildcard (Column False alias (propertyPath (materializedPathColumn md)))))
              Map.empty (createQueryBuilder md alias)))
      else Inl (Error ''Supported only in tree entities''))"

definition findDescendants :: "connection \<Rightarrow> metadata \<Rightarrow> database \<Rightarrow> obj \<Rightarrow> error + obj list" where
  "findDescendants conn md db entity =
     (case createDescendantsQueryBuilder conn md ''treeEntity'' ''treeClosure'' entity of
        Inl err \<Rightarrow> Inl err
      | Inr qb \<Rightarrow> Inr (getMany conn qb db))"

definition countDescendants :: "connection \<Rightarrow> metadata \<Rightarrow> database \<Rightarrow> obj \<Rightarrow> error + nat" where
  "countDescendants conn md db entity =
     (case createDescendantsQueryBuilder conn md ''treeEntity'' ''treeClosure'' entity of
        Inl err \<Rightarrow> Inl err
      | Inr qb \<Rightarrow> Inr (getCount conn qb db))"

definition findAncestors :: "connection \<Rightarrow> metadata \<Rightarrow> database \<Rightarrow> obj \<Rightarrow> error + obj list" where
  "findAncestors conn md db entity =
     (case createAncestorsQueryBuilder conn md ''treeEntity'' ''treeClosure'' entity of
        Inl err \<Rightarrow> Inl err
      | Inr qb \<Rightarrow> Inr (getMany conn qb db))"

definition countAncestors :: "connection \<Rightarrow> metadata \<Rightarrow> database \<Rightarrow> obj \<Rightarrow> error + nat" where
  "countAncestors conn md db entity =
     (case createAncestorsQueryBuilder conn md ''treeEntity'' ''treeClosure'' entity of
        Inl err \<Rightarrow> Inl err
      | Inr qb \<Rightarrow> Inr (getCount conn qb db))"

section \<open>The move plan\<close>

text \<open>
  \<open>moveEntityQueriesBuilder\<close> fetches the descendants of the entity and the ancestors
  of the destination (none when the destination is \<open>null\<close>), appends the entity to the
  ancestors, and for a closure table builds the delete and the insert. An error of
  either fetch leaves the function at once. The three values that the closure-table
  branch computes (the parameters and the condition of the delete, the rows of the
  insert) are functions of their own, named as the source names them.
\<close>

definition delAncestorsParameters :: "metadata \<Rightarrow> obj list \<Rightarrow> obj" where
  "delAncestorsParameters md entDescendants =
     fold (\<lambda>e ps.
         fold (\<lambda>column ps'.
             (let eVal = getEntityValue (referencedColumn column) e;
                  eKey = propertyName (referencedColumn column) @ js_toString eVal
              in ps'(eKey \<mapsto> eVal)))
           (descendantColumns (closureJunctionTable md)) ps)
       entDescendants Map.empty"

definition descendantWhereCondition :: "metadata \<Rightarrow> obj list \<Rightarrow> cond" where
  "descendantWhereCondition md entDescendants =
     AnyOf (map (\<lambda>e.
         (let eCondition = AllOf (map (\<lambda>column.
                  (let eVal = getEntityValue (referencedColumn column) e;
                       eKey = propertyName (referencedColumn column) @ js_toString eVal
                   in Equals (BareColumn True (propertyPath column)) (Parameter eKey)))
                (descendantColumns (closureJunctionTable md)))
          in Parens eCondition))
       entDescendants)"

definition closuresToInsert :: "metadata \<Rightarrow> obj list \<Rightarrow> obj list \<Rightarrow> obj list" where
  "closuresToInsert md toAncestors entDescendants =
     fold (\<lambda>ancestorEntity closures.
         (let ancestorPartial = fold (\<lambda>column prevPartial.
                  prevPartial(propertyPath column \<mapsto> getEntityValue (referencedColumn column) ancestorEntity))
                (ancestorColumns (closureJunctionTable md)) Map.empty;
              descendentPartials = map (\<lambda>descendantEntity.
                  fold (\<lambda>column prevPartial.
                      prevPartial(propertyPath column \<mapsto> getEntityValue (referencedColumn column) descendantEntity))
                    (descendantColumns (closureJunctionTable md)) Map.empty)
                entDescendants;
              newClosuresToInsert = map (\<lambda>descendentPartial. ancestorPartial ++ descendentPartial)
                descendentPartials
          in closures @ newClosuresToInsert))
       toAncestors []"

definition moveEntityQueriesBuilder ::
  "connection \<Rightarrow> metadata \<Rightarrow> database \<Rightarrow> string \<Rightarrow> string \<Rightarrow> obj \<Rightarrow> obj option \<Rightarrow> error + query list" where
  "moveEntityQueriesBuilder conn md db alias closureTableAlias entity to =
     (case findDescendants conn md db entity of
        Inl err \<Rightarrow> Inl err
      | Inr entDescendants \<Rightarrow>
     (case (case to of None \<Rightarrow> Inr [] | Some t \<Rightarrow> findAncestors conn md db t) of
        Inl err \<Rightarrow> Inl err
      | Inr fetched \<Rightarrow>
        (let toAncestors = fetched @ [entity] in
         if treeType md = Some ''closure-table'' then
           (let clearAncestorsQuery =
                  Delete (tableName (closureJunctionTable md))
                    (descendantWhereCondition md entDescendants)
                    (delAncestorsParameters md entDescendants);
                insertAncestorsQuery =
                  Insert (tableName (closureJunctionTable md))
                    (closuresToInsert md toAncestors entDescendants)
            in Inr [clearAncestorsQuery, insertAncestorsQuery])
         else Inr [])))"

section \<open>Moving an entity\<close>

text \<open>
  Modelled from the spec: the transaction manager, which is not part of the sources.
  Section 6: "run a unit of work atomically"; section 7: "a failed move leaves the
  transaction rolled back by the external transaction manager". The unit of work returns
  what it did outside the database together with its error or the database it leaves;
  on an error the database is the one the transaction started from.
\<close>

definition transaction ::
  "(database \<Rightarrow> 's \<times> (error + database)) \<Rightarrow> database \<Rightarrow> 's \<times> error option \<times> database" where
  "transaction work db =
     (case work db of
        (s, Inl err) \<Rightarrow> (s, Some err, db)
      | (s, Inr db') \<Rightarrow> (s, None, db'))"

text \<open>The loop over the move queries: each is executed in turn, the first error ends it.\<close>

fun executeAll :: "connection \<Rightarrow> query list \<Rightarrow> database \<Rightarrow> error + database" where
  "executeAll conn [] db = Inr db"
| "executeAll conn (moveQuery # rest) db =
     (case execute conn moveQuery db of
        Inl err \<Rightarrow> Inl err
      | Inr db' \<Rightarrow> executeAll conn rest db')"

text \<open>
  \<open>move\<close> returns the error, if any, the heap (the entity object is changed in place)
  and the database. \<open>joinColumn.setEntityValue(entity, to)\<close> stores the destination
  (a reference, or \<open>null\<close>) under the join column's property name; with no join column
  the call on \<open>joinColumns[0]\<close> is a type error.
\<close>

definition move ::
  "connection \<Rightarrow> metadata \<Rightarrow> database \<Rightarrow> heap \<Rightarrow> addr \<Rightarrow> addr option \<Rightarrow> error option \<times> heap \<times> database" where
  "move conn md db h entity to =
     (case moveEntityQueriesBuilder conn md db ''treeEntity'' ''treeClosure'' (h entity) (map_option h to) of
        Inl err \<Rightarrow> (Some err, h, db)
      | Inr moveQueries \<Rightarrow>
          (case transaction (\<lambda>tdb.
             (case executeAll conn moveQueries tdb of
                Inl err \<Rightarrow> (h, Inl err)
              | Inr tdb' \<Rightarrow>
                  (case joinColumns (treeParentRelation md) of
                     [] \<Rightarrow> (h, Inl TypeError)
                   | joinColumn # others \<Rightarrow>
                       (let h' = h(entity := (h entity)(propertyName joinColumn \<mapsto>
                                   (case to of None \<Rightarrow> VNull | Some t \<Rightarrow> VRef t)))
                        in (h', save conn (h' entity) tdb')))))
             db of
             (h', err, db') \<Rightarrow> (err, h', db')))"

section \<open>Assembling trees in memory\<close>

record relation_map =
  id' :: val
  parentId :: val

text \<open>\<open>a || b\<close> on an optional string: an absent or empty \<open>a\<close> gives \<open>b\<close>.\<close>

definition or_else :: "string option \<Rightarrow> string \<Rightarrow> string" where
  "or_else a b = (case a of None \<Rightarrow> b | Some s \<Rightarrow> if s = [] then b else s)"

definition createRelationMaps ::
  "connection \<Rightarrow> metadata \<Rightarrow> string \<Rightarrow> obj list \<Rightarrow> error + relation_map list" where
  "createRelationMaps conn md alias rawResults =
     (if rawResults = [] then Inr []
      else (case joinColumns (treeParentRelation md) of
              [] \<Rightarrow> Inl TypeError
            | joinColumn # others \<Rightarrow>
                Inr (map (\<lambda>rawResult.
                  (let joinColumnName = or_else (givenDatabaseName joinColumn) (databaseName joinColumn);
                       rid = getProp rawResult (alias @ ''_'' @ databaseName (fst (primaryColumns md)));
                       rparentId = getProp rawResult (alias @ ''_'' @ joinColumnName)
                   in \<lparr>id' = prepareHydratedValue conn rid (fst (primaryColumns md)),
                       parentId = prepareHydratedValue conn rparentId (column.truncate joinColumn)\<rparr>))
                  rawResults)))"

text \<open>
  The two assemblers change the entity objects in place and call themselves; nothing in
  them bounds the recursion, so the model counts the depth of the calls: with no depth
  left the result is \<open>None\<close>, and a call that returns is one for which some depth
  gives \<open>Some\<close>.
\<close>

fun buildChildrenEntityTree ::
  "nat \<Rightarrow> metadata \<Rightarrow> addr list \<Rightarrow> relation_map list \<Rightarrow> addr \<Rightarrow> heap \<Rightarrow> heap option" where
  "buildChildrenEntityTree 0 md entities relationMaps entity h = None"
| "buildChildrenEntityTree (Suc n) md entities relationMaps entity h =
     (let childProperty = relationPropertyName (treeChildrenRelation md);
          parentEntityId = getEntityValue (fst (primaryColumns md)) (h entity);
          childRelationMaps = filter (\<lambda>relationMap. strict_eq (parentId relationMap) parentEntityId) relationMaps;
          childIds = map id' childRelationMaps;
          children = filter (\<lambda>e. list_ex (\<lambda>i. strict_eq i (getProp (h e) ''id'')) childIds) entities;
          h1 = h(entity := (h entity)(childProperty \<mapsto> VArr children))
      in fold (\<lambda>childEntity acc.
            (case acc of
               None \<Rightarrow> None
             | Some h2 \<Rightarrow> buildChildrenEntityTree n md entities relationMaps childEntity h2))
           children (Some h1))"

definition locateParent :: "metadata \<Rightarrow> addr list \<Rightarrow> relation_map list \<Rightarrow> heap \<Rightarrow> addr \<Rightarrow> addr option" where
  "locateParent md entities relationMaps h entity =
     (let entityId = getEntityValue (fst (primaryColumns md)) (h entity);
          parentRelationMap = find (\<lambda>relationMap. strict_eq (id' relationMap) entityId) relationMaps
      in find (\<lambda>e.
           (case parentRelationMap of
              None \<Rightarrow> False
            | Some relationMap \<Rightarrow>
                strict_eq (getProp (h e) (propertyName (fst (primaryColumns md)))) (parentId relationMap)))
         entities)"

fun buildParentEntityTree ::
  "nat \<Rightarrow> metadata \<Rightarrow> addr list \<Rightarrow> relation_map list \<Rightarrow> addr \<Rightarrow> heap \<Rightarrow> heap option" where
  "buildParentEntityTree 0 md entities relationMaps entity h = None"
| "buildParentEntityTree (Suc n) md entities relationMaps entity h =
     (let parentProperty = relationPropertyName (treeParentRelation md)
      in (case locateParent md entities relationMaps h entity of
            None \<Rightarrow> Some h
          | Some parentEntity \<Rightarrow>
              buildParentEntityTree n md entities relationMaps parentEntity
                (h(entity := (h entity)(parentProperty \<mapsto> VRef parentEntity)))))"

text \<open>
  The tree variants of the finders: the query is built first (and may fail), its raw rows
  give the relation maps, and the assembler works on the hydrated entities.
\<close>

definition findDescendantsTree ::
  "nat \<Rightarrow> connection \<Rightarrow> metadata \<Rightarrow> database \<Rightarrow> heap \<Rightarrow> addr \<Rightarrow> error + heap option" where
  "findDescendantsTree fuel conn md db h entity =
     (case createDescendantsQueryBuilder conn md ''treeEntity'' ''treeClosure'' (h entity) of
        Inl err \<Rightarrow> Inl err
      | Inr qb \<Rightarrow>
          (case getRawAndEntities conn qb db h of
             (raw, entities, h') \<Rightarrow>
               (case createRelationMaps conn md ''treeEntity'' raw of
                  Inl err \<Rightarrow> Inl err
                | Inr relationMaps \<Rightarrow> Inr (buildChildrenEntityTree fuel md entities relationMaps entity h'))))"

definition findAncestorsTree ::
  "nat \<Rightarrow> connection \<Rightarrow> metadata \<Rightarrow> database \<Rightarrow> heap \<Rightarrow> addr \<Rightarrow> error + heap option" where
  "findAncestorsTree fuel conn md db h entity =
     (case createAncestorsQueryBuilder conn md ''treeEntity'' ''treeClosure'' (h entity) of
        Inl err \<Rightarrow> Inl err
      | Inr qb \<Rightarrow>
          (case getRawAndEntities conn qb db h of
             (raw, entities, h') \<Rightarrow>
               (case createRelationMaps conn md ''treeEntity'' raw of
                  Inl err \<Rightarrow> Inl err
                | Inr relationMaps \<Rightarrow> Inr (buildParentEntityTree fuel md entities relationMaps entity h'))))"

section \<open>Executing a select query\<close>

text \<open>
  Modelled from the spec: the execution of a select query, which is not part of the
  sources. Section 4.1: "join the entity's table to the closure junction on the
  junction's descendant-columns = target row's referenced columns; filter junction's
  ancestor-columns = the given entity's key value(s)"; "the outer filter requires the
  candidate row's path to start with that sub-query's value (prefix match via
  pattern-match-with-wildcard-suffix)". A condition is read in an environment that gives
  each alias its row (a column with no alias is read in the row of the empty alias).
  An equality holds between equal values that are not \<open>null\<close>; \<open>LIKE\<close> matches a
  string against a pattern in which \<open>%\<close> stands for any string and \<open>_\<close> for any
  character; a sub-query is the selected column of the first row of its table that has
  the given ids. The rows of the entity's table that satisfy the join with some row of
  the joined table and the condition are the entities returned, in the table's order.
\<close>

definition sql_eq :: "val \<Rightarrow> val \<Rightarrow> bool" where
  "sql_eq v w = (v = w \<and> v \<noteq> VNull \<and> v \<noteq> VUndefined)"

fun like_match :: "string \<Rightarrow> string \<Rightarrow> bool" where
  "like_match [] s = (s = [])"
| "like_match (p # ps) [] = (p = CHR ''%'' \<and> like_match ps [])"
| "like_match (p # ps) (c # cs) =
     (if p = CHR ''%'' then like_match ps (c # cs) \<or> like_match (p # ps) cs
      else (p = CHR ''_'' \<or> p = c) \<and> like_match ps cs)"

definition has_ids :: "obj \<Rightarrow> obj \<Rightarrow> bool" where
  "has_ids ids row = (row |` dom ids = ids)"

definition subquery_value :: "database \<Rightarrow> subquery \<Rightarrow> val" where
  "subquery_value db sq =
     (case sq_whereInIds sq of
        None \<Rightarrow> VNull
      | Some ids \<Rightarrow>
          (case find (has_ids ids) (db (sq_from sq)) of
             None \<Rightarrow> VNull
           | Some row \<Rightarrow> getProp row (snd (sq_select sq))))"

definition with_wildcard :: "val \<Rightarrow> val" where
  "with_wildcard v = (case v of VStr s \<Rightarrow> VStr (s @ ''%'') | _ \<Rightarrow> VNull)"

fun operand_value :: "database \<Rightarrow> obj \<Rightarrow> (string \<rightharpoonup> obj) \<Rightarrow> operand \<Rightarrow> val" where
  "operand_value db ps env (Column q a c) = (case env a of None \<Rightarrow> VNull | Some row \<Rightarrow> getProp row c)"
| "operand_value db ps env (BareColumn q c) = (case env [] of None \<Rightarrow> VNull | Some row \<Rightarrow> getProp row c)"
| "operand_value db ps env (Parameter p) = getProp ps p"
| "operand_value db ps env (SubQuery sq) = subquery_value db sq"
| "operand_value db ps env (PipeWildcard x) = with_wildcard (operand_value db ps env x)"
| "operand_value db ps env (ConcatWildcard x) = with_wildcard (operand_value db ps env x)"

definition between :: "val \<Rightarrow> val \<Rightarrow> val \<Rightarrow> bool" where
  "between v lo hi =
     (case (v, lo, hi) of (VNum x, VNum l, VNum u) \<Rightarrow> l \<le> x \<and> x \<le> u | _ \<Rightarrow> False)"

definition like :: "val \<Rightarrow> val \<Rightarrow> bool" where
  "like v pat = (case (v, pat) of (VStr s, VStr p) \<Rightarrow> like_match p s | _ \<Rightarrow> False)"

fun holds :: "database \<Rightarrow> obj \<Rightarrow> (string \<rightharpoonup> obj) \<Rightarrow> cond \<Rightarrow> bool" where
  "holds db ps env (Equals x y) = sql_eq (operand_value db ps env x) (operand_value db ps env y)"
| "holds db ps env (Between x lo hi) =
     between (operand_value db ps env x) (operand_value db ps env lo) (operand_value db ps env hi)"
| "holds db ps env (Like x y) = like (operand_value db ps env x) (operand_value db ps env y)"
| "holds db ps env (AllOf cs) = list_all (holds db ps env) cs"
| "holds db ps env (AnyOf cs) = list_ex (holds db ps env) cs"
| "holds db ps env (Parens c) = holds db ps env c"

definition runSelect :: "select_query \<Rightarrow> database \<Rightarrow> obj list" where
  "runSelect qb db =
     filter (\<lambda>row.
        (case sel_join qb of
           None \<Rightarrow> holds db (sel_parameters qb) [sel_alias qb \<mapsto> row] (sel_where qb)
         | Some (table, alias, condition) \<Rightarrow>
             list_ex (\<lambda>joined.
                 holds db (sel_parameters qb) [sel_alias qb \<mapsto> row, alias \<mapsto> joined] condition
                 \<and> holds db (sel_parameters qb) [sel_alias qb \<mapsto> row, alias \<mapsto> joined] (sel_where qb))
               (db table)))
       (db (sel_from qb))"

section \<open>The four categories of the test\<close>

text \<open>
  The entity \<open>ClosureCategory\<close> of the test for issue 193 (table \<open>gh_193\<close>, closure
  table \<open>gh_193_closure\<close> with the columns \<open>id_ancestor\<close> and \<open>id_descendant\<close>,
  primary column \<open>id\<close>, parent \<open>parentCategory\<close>, children \<open>childCategories\<close>), and
  the state its test builds: A (id 1) the root, B (2) and C (3) children of A, D (4) a
  child of C, with the closure rows of that tree. The driver escapes a name by putting
  it in double quotes.
\<close>

definition idColumn :: column where
  "idColumn = \<lparr>propertyName = ''id'', propertyPath = ''id'', databaseName = ''id'', givenDatabaseName = None\<rparr>"

definition noColumn :: column where
  "noColumn = \<lparr>propertyName = [], propertyPath = [], databaseName = [], givenDatabaseName = None\<rparr>"

definition closureColumn :: "string \<Rightarrow> join_column" where
  "closureColumn name =
     \<lparr>propertyName = name, propertyPath = name, databaseName = name, givenDatabaseName = None,
      referencedColumn = idColumn\<rparr>"

definition closureCategory :: metadata where
  "closureCategory =
     \<lparr>treeType = Some ''closure-table'',
      targetName = ''ClosureCategory'',
      closureJunctionTable =
        \<lparr>tableName = ''gh_193_closure'',
         ancestorColumns = [closureColumn ''id_ancestor''],
         descendantColumns = [closureColumn ''id_descendant'']\<rparr>,
      nestedSetLeftColumn = noColumn,
      nestedSetRightColumn = noColumn,
      materializedPathColumn = noColumn,
      treeParentRelation =
        \<lparr>relationPropertyName = ''parentCategory'',
         joinColumns = [\<lparr>propertyName = ''parentCategory'', propertyPath = ''parentCategory'',
                         databaseName = ''parentCategoryId'', givenDatabaseName = None,
                         referencedColumn = idColumn\<rparr>]\<rparr>,
      treeChildrenRelation = \<lparr>relationPropertyName = ''childCategories'', joinColumns = []\<rparr>,
      primaryColumns = (idColumn, [])\<rparr>"

definition category :: "int \<Rightarrow> string \<Rightarrow> obj" where
  "category i name = [''id'' \<mapsto> VNum i, ''name'' \<mapsto> VStr name]"

definition closureRow :: "int \<Rightarrow> int \<Rightarrow> obj" where
  "closureRow a d = [''id_ancestor'' \<mapsto> VNum a, ''id_descendant'' \<mapsto> VNum d]"

definition categories :: database where
  "categories =
     (\<lambda>table. [])
       (''ClosureCategory'' := [category 1 ''A'', category 2 ''B'', category 3 ''C'', category 4 ''D''],
        ''gh_193_closure'' :=
          [closureRow 1 1, closureRow 2 2, closureRow 1 2, closureRow 3 3, closureRow 1 3,
           closureRow 4 4, closureRow 1 4, closureRow 3 4])"

definition doubleQuoted :: "string \<Rightarrow> string" where
  "doubleQuoted name = [CHR 0x22] @ name @ [CHR 0x22]"

definition testConnection :: connection where
  "testConnection =
     \<lparr>escape = doubleQuoted,
      isAbstractSqliteDriver = False,
      getQuery = (\<lambda>sq. []),
      getMany = runSelect,
      getCount = (\<lambda>qb db. length (runSelect qb db)),
      getRawAndEntities = (\<lambda>qb db h. ([], [], h)),
      prepareHydratedValue = (\<lambda>v c. v),
      execute = (\<lambda>q db. Inr db),
      save = (\<lambda>entity db. Inr db)\<rparr>"

text \<open>
  The entity objects of the test: A, B, C and D at the addresses 1 to 4, B with its
  parent A.
\<close>

definition testHeap :: heap where
  "testHeap =
     (\<lambda>a. Map.empty)
       (1 := category 1 ''A'',
        2 := (category 2 ''B'')(''parentCategory'' \<mapsto> VRef 1),
        3 := (category 3 ''C'')(''parentCategory'' \<mapsto> VRef 1),
        4 := (category 4 ''D'')(''parentCategory'' \<mapsto> VRef 3))"

text \<open>
  A connection on which the delete empties the closure table and the insert fails.
\<close>

definition failingInsert :: connection where
  "failingInsert =
     testConnection\<lparr>execute := (\<lambda>q db.
        (case q of Delete table condition parameters \<Rightarrow> Inr (db(table := []))
                 | Insert table closures \<Rightarrow> Inl (Error ''insert failed'')))\<rparr>"






text \<open>
  The edges of a relation map: from the id of each entry to its parent id. The map is
  acyclic when no id reaches itself along them.
\<close>

definition parentEdges :: "relation_map list \<Rightarrow> (val \<times> val) set" where
  "parentEdges relationMaps = (\<lambda>relationMap. (id' relationMap, parentId relationMap)) ` set relationMaps"

text \<open>
  The relation maps of the four categories and the heap of their hydrated entities
  (no parent or children property yet), at the addresses 1 to 4.
\<close>

definition categoryRelationMaps :: "relation_map list" where
  "categoryRelationMaps =
     [\<lparr>id' = VNum 1, parentId = VNull\<rparr>, \<lparr>id' = VNum 2, parentId = VNum 1\<rparr>,
      \<lparr>id' = VNum 3, parentId = VNum 1\<rparr>, \<lparr>id' = VNum 4, parentId = VNum 3\<rparr>]"

definition hydratedHeap :: heap where
  "hydratedHeap =
     (\<lambda>a. Map.empty)
       (1 := category 1 ''A'', 2 := category 2 ''B'', 3 := category 3 ''C'', 4 := category 4 ''D'')"

text \<open>
  An entity type like \<open>ClosureCategory\<close> whose primary column is the property \<open>key\<close>
  and that has a plain column \<open>id\<close> as well. Three of its entities: A (key 1, id 7) at
  address 1, its child B (key 2, id 5) at address 2, and C (key 3, id 2), a child of B,
  at address 3.
\<close>

definition keyColumn :: column where
  "keyColumn = \<lparr>propertyName = ''key'', propertyPath = ''key'', databaseName = ''key'', givenDatabaseName = None\<rparr>"

definition keyedCategory :: metadata where
  "keyedCategory = closureCategory\<lparr>primaryColumns := (keyColumn, [])\<rparr>"

definition keyed :: "int \<Rightarrow> int \<Rightarrow> string \<Rightarrow> obj" where
  "keyed k i name = [''key'' \<mapsto> VNum k, ''id'' \<mapsto> VNum i, ''name'' \<mapsto> VStr name]"

definition keyedHeap :: heap where
  "keyedHeap = (\<lambda>a. Map.empty)(1 := keyed 1 7 ''A'', 2 := keyed 2 5 ''B'', 3 := keyed 3 2 ''C'')"

definition keyedRelationMaps :: "relation_map list" where
  "keyedRelationMaps = [\<lparr>id' = VNum 2, parentId = VNum 1\<rparr>, \<lparr>id' = VNum 3, parentId = VNum 2\<rparr>]"

text \<open>The rank of a value: a number's size, and 0 for anything else.\<close>

definition rank :: "val \<Rightarrow> nat" where
  "rank v = (case v of VNum i \<Rightarrow> nat i | _ \<Rightarrow> 0)"

text \<open>
  Two entities of a type whose only columns are \<open>key\<close> and \<open>name\<close>: A (key 1) at
  address 1 and its child B (key 2) at address 2.
\<close>

definition keyOnlyHeap :: heap where
  "keyOnlyHeap =
     (\<lambda>a. Map.empty)
       (1 := [''key'' \<mapsto> VNum 1, ''name'' \<mapsto> VStr ''A''],
        2 := [''key'' \<mapsto> VNum 2, ''name'' \<mapsto> VStr ''B''])"

section \<open>The closure table as a relation\<close>

text \<open>
  The key of an entity is the list of the values of its primary columns; a closure row
  has the key of its ancestor in the ancestor columns and the key of its descendant in
  the descendant columns. The metadata of a closure table is regular when the ancestor
  columns and the descendant columns reference the primary columns, in their order, and
  the path of a primary column is its name. For a set of edges from the key of a child
  to the key of its parent, the closure table is the closure of the edges when its rows
  are exactly the pairs of keys of the entity table of which the second reaches the first
  along zero or more edges: every ancestor with every descendant, and every entity with
  itself.
\<close>

definition entityKey :: "metadata \<Rightarrow> obj \<Rightarrow> val list" where
  "entityKey md entity =
     map (\<lambda>column. getProp entity (propertyName column)) (fst (primaryColumns md) # snd (primaryColumns md))"

definition ancestorKey :: "metadata \<Rightarrow> obj \<Rightarrow> val list" where
  "ancestorKey md row = map (\<lambda>column. getProp row (propertyPath column)) (ancestorColumns (closureJunctionTable md))"

definition descendantKey :: "metadata \<Rightarrow> obj \<Rightarrow> val list" where
  "descendantKey md row = map (\<lambda>column. getProp row (propertyPath column)) (descendantColumns (closureJunctionTable md))"

definition regular :: "metadata \<Rightarrow> bool" where
  "regular md =
     (map referencedColumn (ancestorColumns (closureJunctionTable md)) = fst (primaryColumns md) # snd (primaryColumns md)
      \<and> map referencedColumn (descendantColumns (closureJunctionTable md)) = fst (primaryColumns md) # snd (primaryColumns md)
      \<and> list_all (\<lambda>column. propertyPath column = propertyName column) (fst (primaryColumns md) # snd (primaryColumns md)))"

definition keysSet :: "metadata \<Rightarrow> database \<Rightarrow> bool" where
  "keysSet md db =
     list_all (\<lambda>entity. list_all (\<lambda>v. v \<noteq> VNull \<and> v \<noteq> VUndefined) (entityKey md entity)) (db (targetName md))"

definition closureOf :: "metadata \<Rightarrow> database \<Rightarrow> (val list \<times> val list) set \<Rightarrow> bool" where
  "closureOf md db edges =
     (\<forall>a d. (\<exists>row \<in> set (db (tableName (closureJunctionTable md))). ancestorKey md row = a \<and> descendantKey md row = d)
        = (a \<in> entityKey md ` set (db (targetName md)) \<and> d \<in> entityKey md ` set (db (targetName md))
           \<and> (d, a) \<in> edges\<^sup>*))"

text \<open>The edges of the four categories: B and C are children of A, D is a child of C.\<close>

definition categoryEdges :: "(val list \<times> val list) set" where
  "categoryEdges = {([VNum 2], [VNum 1]), ([VNum 3], [VNum 1]), ([VNum 4], [VNum 3])}"

section \<open>Executing a delete\<close>

text \<open>
  Modelled from the spec: the execution of a delete, which is not part of the sources.
  Section 4.3: "a delete operation removing every junction row whose descendant-columns
  match any of entity's descendants". The rows a delete removes are the rows of its table
  that satisfy its condition, read as a select's condition is; a condition with the empty
  text is no restriction, and every row is removed.
\<close>

definition deletedRows :: "connection \<Rightarrow> query \<Rightarrow> database \<Rightarrow> obj list" where
  "deletedRows conn q db =
     (case q of
        Delete table condition parameters \<Rightarrow>
          (if render (escape conn) (getQuery conn) condition = [] then db table
           else filter (\<lambda>row. holds db parameters [[] \<mapsto> row] condition) (db table))
      | Insert table closures \<Rightarrow> [])"

text \<open>
  The name under which the delete binds the value of a descendant column for an entity,
  and the lists of entities for which no name is bound to two different values.
\<close>

definition parameterName :: "join_column \<Rightarrow> obj \<Rightarrow> string" where
  "parameterName column e =
     propertyName (referencedColumn column) @ js_toString (getEntityValue (referencedColumn column) e)"

definition collisionFree :: "metadata \<Rightarrow> obj list \<Rightarrow> bool" where
  "collisionFree md entDescendants =
     (\<forall>e \<in> set entDescendants. \<forall>e' \<in> set entDescendants.
        \<forall>column \<in> set (descendantColumns (closureJunctionTable md)).
        \<forall>column' \<in> set (descendantColumns (closureJunctionTable md)).
          parameterName column e = parameterName column' e'
          \<longrightarrow> getEntityValue (referencedColumn column) e = getEntityValue (referencedColumn column') e')"

section \<open>Connections whose writes take effect\<close>

text \<open>
  Modelled from the spec: the execution of the writes of a move, which is not part of
  the sources. Section 4.3: the delete removes "every junction row whose
  descendant-columns match", the insert adds "one junction row (ancestor, descendant)"
  for each of its values, and the caller "persists entity". On the connection
  \<open>storing\<close> a delete removes the rows that \<open>deletedRows\<close> gives, an insert appends
  its values to its table, and \<open>save\<close> puts the entity in the place of the stored
  category that has its id. The text that the builder gives the insert (the test of
  issue 193 reads \<open>VALUES (DEFAULT, DEFAULT)\<close> for each row, the rows being the
  parameters) is not modelled. On \<open>failingSave\<close> the two queries are executed in the
  same way and \<open>save\<close> fails.
\<close>

definition storing :: connection where
  "storing =
     testConnection\<lparr>
       execute := (\<lambda>q db.
         (case q of
            Delete table condition parameters \<Rightarrow>
              Inr (db(table := filter (\<lambda>row. row \<notin> set (deletedRows testConnection q db)) (db table)))
          | Insert table closures \<Rightarrow> Inr (db(table := db table @ closures)))),
       save := (\<lambda>entity db.
         Inr (db(''ClosureCategory'' :=
           map (\<lambda>row. if row ''id'' = entity ''id'' then entity else row) (db ''ClosureCategory''))))\<rparr>"

definition failingSave :: connection where
  "failingSave = storing\<lparr>save := (\<lambda>entity db. Inl (Error ''save failed''))\<rparr>"



section \<open>Facts used throughout\<close>

lemmas query_builder_defs = setParameters_def whereCond_def innerJoin_def createQueryBuilder_def
  getEntityValue_def getProp_def

lemmas test_defs = testConnection_def closureCategory_def categories_def closureColumn_def
  idColumn_def testHeap_def category_def closureRow_def doubleQuoted_def

declare string_of_nat.simps [simp del]

lemma string_of_nat_digit: "n < 10 \<Longrightarrow> string_of_nat n = [digit_char n]"
  by (simp add: string_of_nat.simps)

lemma descendants_unsupported:
  assumes "treeType md \<noteq> Some ''closure-table''" and "treeType md \<noteq> Some ''nested-set''"
    and "treeType md \<noteq> Some ''materialized-path''"
  shows "createDescendantsQueryBuilder conn md alias cta entity = Inl (Error ''Supported only in tree entities'')"
  using assms by (simp add: createDescendantsQueryBuilder_def)

lemma ancestors_unsupported:
  assumes "treeType md \<noteq> Some ''closure-table''" and "treeType md \<noteq> Some ''nested-set''"
    and "treeType md \<noteq> Some ''materialized-path''"
  shows "createAncestorsQueryBuilder conn md alias cta entity = Inl (Error ''Supported only in tree entities'')"
  using assms by (simp add: createAncestorsQueryBuilder_def)

lemma fold_keep: "fold (\<lambda>x acc. acc) xs ys = ys"
  by (induction xs arbitrary: ys) simp_all

lemma closure_descendants_succeed:
  "treeType md = Some ''closure-table'' \<Longrightarrow> \<exists>qb. createDescendantsQueryBuilder conn md alias cta entity = Inr qb"
  by (simp add: createDescendantsQueryBuilder_def Let_def)

lemma closure_ancestors_succeed:
  "treeType md = Some ''closure-table'' \<Longrightarrow> \<exists>qb. createAncestorsQueryBuilder conn md alias cta entity = Inr qb"
  by (simp add: createAncestorsQueryBuilder_def Let_def)

lemma closure_findDescendants:
  "treeType md = Some ''closure-table'' \<Longrightarrow> \<exists>ds. findDescendants conn md db entity = Inr ds"
  using closure_descendants_succeed [of md conn "''treeEntity''" "''treeClosure''" entity]
  by (auto simp add: findDescendants_def)

lemma closure_findAncestors:
  "treeType md = Some ''closure-table'' \<Longrightarrow> \<exists>as. findAncestors conn md db entity = Inr as"
  using closure_ancestors_succeed [of md conn "''treeEntity''" "''treeClosure''" entity]
  by (auto simp add: findAncestors_def)

lemma closure_plan:
  assumes "treeType md = Some ''closure-table''"
    and "findDescendants conn md db entity = Inr ds"
    and "(case to of None \<Rightarrow> Inr [] | Some t \<Rightarrow> findAncestors conn md db t) = Inr as"
  shows "moveEntityQueriesBuilder conn md db alias cta entity to =
     Inr [Delete (tableName (closureJunctionTable md)) (descendantWhereCondition md ds) (delAncestorsParameters md ds),
          Insert (tableName (closureJunctionTable md)) (closuresToInsert md (as @ [entity]) ds)]"
  using assms by (simp add: moveEntityQueriesBuilder_def)

lemma closure_fetch_ancestors:
  assumes "treeType md = Some ''closure-table''"
  shows "\<exists>as. (case to of None \<Rightarrow> Inr [] | Some t \<Rightarrow> findAncestors conn md db t) = Inr as"
proof (cases to)
  case None
  then show ?thesis by simp
next
  case (Some t)
  then show ?thesis using closure_findAncestors [OF assms, of conn db t] by simp
qed

lemma closure_plan_exists:
  assumes "treeType md = Some ''closure-table''"
  shows "\<exists>condition parameters closures. moveEntityQueriesBuilder conn md db alias cta entity to =
     Inr [Delete (tableName (closureJunctionTable md)) condition parameters,
          Insert (tableName (closureJunctionTable md)) closures]"
proof -
  obtain ds where ds: "findDescendants conn md db entity = Inr ds"
    using closure_findDescendants [OF assms] by blast
  obtain as where as: "(case to of None \<Rightarrow> Inr [] | Some t \<Rightarrow> findAncestors conn md db t) = Inr as"
    using closure_fetch_ancestors [OF assms] by blast
  show ?thesis using closure_plan [OF assms ds as] by blast
qed

text \<open>The plan of the test, whatever the connection does with a write.\<close>

lemma test_plan:
  "moveEntityQueriesBuilder (testConnection\<lparr>execute := ex, save := sv\<rparr>) closureCategory categories
     al ct (testHeap 2) (Some (testHeap 3)) =
    Inr [Delete ''gh_193_closure''
           (AnyOf [Parens (AllOf [Equals (BareColumn True ''id_descendant'') (Parameter ''id2'')])])
           [''id2'' \<mapsto> VNum 2],
         Insert ''gh_193_closure'' [closureRow 1 2, closureRow 3 2, closureRow 2 2]]"
  by (simp add: moveEntityQueriesBuilder_def findDescendants_def findAncestors_def runSelect_def
      descendantWhereCondition_def delAncestorsParameters_def closuresToInsert_def
      createDescendantsQueryBuilder_def createAncestorsQueryBuilder_def query_builder_defs test_defs
      sql_eq_def string_of_int_def string_of_nat_digit digit_char_def)

lemma testConnection_writes: "testConnection\<lparr>execute := (\<lambda>q db. Inr db), save := (\<lambda>entity db. Inr db)\<rparr> = testConnection"
  by (simp add: testConnection_def)

text \<open>The parent relation and the closure table of the categories.\<close>

lemma category_parent:
  "joinColumns (treeParentRelation closureCategory) =
      [\<lparr>propertyName = ''parentCategory'', propertyPath = ''parentCategory'',
        databaseName = ''parentCategoryId'', givenDatabaseName = None, referencedColumn = idColumn\<rparr>]"
  by (simp add: closureCategory_def)

lemma category_table: "tableName (closureJunctionTable closureCategory) = ''gh_193_closure''"
  by (simp add: closureCategory_def)

text \<open>
  The plan of the test on the other connections, and what their writes do with its
  queries.
\<close>

lemma storing_plan:
  "moveEntityQueriesBuilder storing closureCategory categories al ct (testHeap 2) (Some (testHeap 3)) =
    Inr [Delete ''gh_193_closure''
           (AnyOf [Parens (AllOf [Equals (BareColumn True ''id_descendant'') (Parameter ''id2'')])])
           [''id2'' \<mapsto> VNum 2],
         Insert ''gh_193_closure'' [closureRow 1 2, closureRow 3 2, closureRow 2 2]]"
  unfolding storing_def by (rule test_plan)

lemma deleted_of_B:
  "deletedRows testConnection
      (Delete ''gh_193_closure''
           (AnyOf [Parens (AllOf [Equals (BareColumn True ''id_descendant'') (Parameter ''id2'')])])
           [''id2'' \<mapsto> VNum 2]) db
    = filter (\<lambda>row. row ''id_descendant'' = Some (VNum 2)) (db ''gh_193_closure'')"
  by (auto simp add: deletedRows_def quoted_def testConnection_def doubleQuoted_def sql_eq_def getProp_def
      intro!: filter_cong split: option.splits)

lemma failingInsert_plan:
  "moveEntityQueriesBuilder failingInsert closureCategory categories al ct (testHeap 2) (Some (testHeap 3)) =
    Inr [Delete ''gh_193_closure''
           (AnyOf [Parens (AllOf [Equals (BareColumn True ''id_descendant'') (Parameter ''id2'')])])
           [''id2'' \<mapsto> VNum 2],
         Insert ''gh_193_closure'' [closureRow 1 2, closureRow 3 2, closureRow 2 2]]"
  unfolding failingInsert_def
  using test_plan [where sv = "\<lambda>entity db. Inr db"]
  by (simp add: testConnection_def)

lemma failingSave_plan:
  "moveEntityQueriesBuilder failingSave closureCategory categories al ct (testHeap 2) (Some (testHeap 3)) =
    Inr [Delete ''gh_193_closure''
           (AnyOf [Parens (AllOf [Equals (BareColumn True ''id_descendant'') (Parameter ''id2'')])])
           [''id2'' \<mapsto> VNum 2],
         Insert ''gh_193_closure'' [closureRow 1 2, closureRow 3 2, closureRow 2 2]]"
  unfolding failingSave_def storing_def by simp (rule test_plan)

lemma storing_delete_B:
  "execute storing (Delete ''gh_193_closure''
           (AnyOf [Parens (AllOf [Equals (BareColumn True ''id_descendant'') (Parameter ''id2'')])])
           [''id2'' \<mapsto> VNum 2]) db
    = Inr (db(''gh_193_closure'' := filter (\<lambda>row. row ''id_descendant'' \<noteq> Some (VNum 2)) (db ''gh_193_closure'')))"
  by (simp add: storing_def deleted_of_B cong: filter_cong)

lemma storing_insert: "execute storing (Insert table closures) db = Inr (db(table := db table @ closures))"
  by (simp add: storing_def)

lemma storing_save:
  "save storing entity db =
     Inr (db(''ClosureCategory'' := map (\<lambda>row. if row ''id'' = entity ''id'' then entity else row) (db ''ClosureCategory'')))"
  by (simp add: storing_def)



section \<open>The texts of the conditions\<close>

text \<open>
  The conditions render to the very texts that the source concatenates: the right-hand
  sides below are the expressions of \<open>TreeRepository.ts\<close>, with \<open>@\<close> for \<open>+\<close>.
\<close>

lemma closure_descendants_texts:
  assumes "treeType md = Some ''closure-table''"
    and "createDescendantsQueryBuilder conn md alias closureTableAlias entity = Inr qb"
  shows "sel_join qb = Some (tableName (closureJunctionTable md), closureTableAlias, joinCondition)
     \<Longrightarrow> render (escape conn) gq joinCondition =
       js_join '' AND '' (map (\<lambda>column.
           escape conn closureTableAlias @ ''.'' @ escape conn (propertyPath column) @ '' = ''
             @ escape conn alias @ ''.'' @ escape conn (propertyPath (referencedColumn column)))
         (descendantColumns (closureJunctionTable md)))"
    and "render (escape conn) gq (sel_where qb) =
       js_join '' AND '' (map (\<lambda>column.
           escape conn closureTableAlias @ ''.'' @ escape conn (propertyPath column) @ '' = :''
             @ propertyName (referencedColumn column))
         (ancestorColumns (closureJunctionTable md)))"
  using assms
  by (auto simp add: createDescendantsQueryBuilder_def query_builder_defs quoted_def comp_def Let_def)

lemma closure_ancestors_texts:
  assumes "treeType md = Some ''closure-table''"
    and "createAncestorsQueryBuilder conn md alias closureTableAlias entity = Inr qb"
  shows "sel_join qb = Some (tableName (closureJunctionTable md), closureTableAlias, joinCondition)
     \<Longrightarrow> render (escape conn) gq joinCondition =
       js_join '' AND '' (map (\<lambda>column.
           closureTableAlias @ ''.'' @ propertyPath column @ '' = ''
             @ alias @ ''.'' @ propertyPath (referencedColumn column))
         (ancestorColumns (closureJunctionTable md)))"
    and "render (escape conn) gq (sel_where qb) =
       js_join '' AND '' (map (\<lambda>column.
           closureTableAlias @ ''.'' @ propertyPath column @ '' = :'' @ propertyName (referencedColumn column))
         (descendantColumns (closureJunctionTable md)))"
  using assms
  by (auto simp add: createAncestorsQueryBuilder_def query_builder_defs quoted_def comp_def Let_def)

lemma nested_set_descendants_texts:
  assumes "treeType md = Some ''nested-set''"
    and "createDescendantsQueryBuilder conn md alias closureTableAlias entity = Inr qb"
  shows "sel_join qb = Some (targetName md, ''joined'', whereCondition)
     \<Longrightarrow> render (escape conn) gq whereCondition =
       alias @ ''.'' @ propertyPath (nestedSetLeftColumn md) @ '' BETWEEN '' @
       ''joined.'' @ propertyPath (nestedSetLeftColumn md) @ '' AND joined.'' @ propertyPath (nestedSetRightColumn md)"
    and "render (escape conn) gq (sel_where qb) =
       js_join '' AND '' (map (\<lambda>joinColumn.
           ''joined.'' @ propertyPath (referencedColumn joinColumn) @ '' = :''
             @ replace_dot (propertyPath (referencedColumn joinColumn)))
         (joinColumns (treeParentRelation md)))"
  using assms
  by (auto simp add: createDescendantsQueryBuilder_def query_builder_defs quoted_def comp_def Let_def)

lemma nested_set_ancestors_texts:
  assumes "treeType md = Some ''nested-set''"
    and "createAncestorsQueryBuilder conn md alias closureTableAlias entity = Inr qb"
  shows "sel_join qb = Some (targetName md, ''joined'', joinCondition)
     \<Longrightarrow> render (escape conn) gq joinCondition =
       ''joined.'' @ propertyPath (nestedSetLeftColumn md) @ '' BETWEEN '' @
       alias @ ''.'' @ propertyPath (nestedSetLeftColumn md) @ '' AND '' @ alias @ ''.''
         @ propertyPath (nestedSetRightColumn md)"
    and "render (escape conn) gq (sel_where qb) =
       js_join '' AND '' (map (\<lambda>joinColumn.
           ''joined.'' @ propertyPath (referencedColumn joinColumn) @ '' = :''
             @ replace_dot (propertyPath (referencedColumn joinColumn)))
         (joinColumns (treeParentRelation md)))"
  using assms
  by (auto simp add: createAncestorsQueryBuilder_def query_builder_defs quoted_def comp_def Let_def)

lemma delete_condition_source_text:
  "render esc gq (descendantWhereCondition md entDescendants) =
     js_join '' OR '' (map (\<lambda>e.
         ''('' @ js_join '' AND '' (map (\<lambda>column.
             esc (propertyPath column) @ '' = :'' @ propertyName (referencedColumn column)
               @ js_toString (getEntityValue (referencedColumn column) e))
           (descendantColumns (closureJunctionTable md))) @ '')'')
       entDescendants)"
  by (simp add: descendantWhereCondition_def quoted_def comp_def Let_def)

section \<open>Entities that are not trees\<close>

text \<open>
  Claim C5. When the declared encoding of the entity type is none of closure-table,
  nested-set and materialized-path, every descendant operation (the query builder,
  \<open>findDescendants\<close>, \<open>findDescendantsTree\<close>, \<open>countDescendants\<close>), every ancestor
  operation and the move (\<open>moveEntityQueriesBuilder\<close>, \<open>move\<close>) fail with the error
  "Supported only in tree entities"; none returns a result, and \<open>move\<close> leaves the heap
  and the database as they were.
\<close>

theorem unsupported_encoding_fails:
  assumes "treeType md \<noteq> Some ''closure-table''" and "treeType md \<noteq> Some ''nested-set''"
    and "treeType md \<noteq> Some ''materialized-path''"
  shows "createDescendantsQueryBuilder conn md alias cta e = Inl (Error ''Supported only in tree entities'')
    \<and> findDescendants conn md db e = Inl (Error ''Supported only in tree entities'')
    \<and> findDescendantsTree fuel conn md db h a = Inl (Error ''Supported only in tree entities'')
    \<and> countDescendants conn md db e = Inl (Error ''Supported only in tree entities'')
    \<and> createAncestorsQueryBuilder conn md alias cta e = Inl (Error ''Supported only in tree entities'')
    \<and> findAncestors conn md db e = Inl (Error ''Supported only in tree entities'')
    \<and> findAncestorsTree fuel conn md db h a = Inl (Error ''Supported only in tree entities'')
    \<and> countAncestors conn md db e = Inl (Error ''Supported only in tree entities'')
    \<and> moveEntityQueriesBuilder conn md db alias cta e to = Inl (Error ''Supported only in tree entities'')
    \<and> move conn md db h a dest = (Some (Error ''Supported only in tree entities''), h, db)"
  using assms
  by (simp add: descendants_unsupported ancestors_unsupported findDescendants_def findAncestors_def
      findDescendantsTree_def findAncestorsTree_def countDescendants_def countAncestors_def
      moveEntityQueriesBuilder_def move_def)

theorem unsupported_encoding_fails_witness:
  "treeType (closureCategory\<lparr>treeType := Some ''adjacency-list''\<rparr>) \<noteq> Some ''closure-table''
   \<and> treeType (closureCategory\<lparr>treeType := Some ''adjacency-list''\<rparr>) \<noteq> Some ''nested-set''
   \<and> treeType (closureCategory\<lparr>treeType := Some ''adjacency-list''\<rparr>) \<noteq> Some ''materialized-path''
   \<and> findDescendants testConnection (closureCategory\<lparr>treeType := Some ''adjacency-list''\<rparr>) categories (testHeap 2)
       = Inl (Error ''Supported only in tree entities'')
   \<and> findAncestors testConnection (closureCategory\<lparr>treeType := Some ''adjacency-list''\<rparr>) categories (testHeap 2)
       = Inl (Error ''Supported only in tree entities'')
   \<and> move testConnection (closureCategory\<lparr>treeType := Some ''adjacency-list''\<rparr>) categories testHeap 2 (Some 3)
       = (Some (Error ''Supported only in tree entities''), testHeap, categories)"
proof -
  let ?md = "closureCategory\<lparr>treeType := Some ''adjacency-list''\<rparr>"
  have a: "treeType ?md \<noteq> Some ''closure-table''" by simp
  have b: "treeType ?md \<noteq> Some ''nested-set''" by simp
  have c: "treeType ?md \<noteq> Some ''materialized-path''" by simp
  show ?thesis
    using a b c
      unsupported_encoding_fails [OF a b c, of testConnection "''treeEntity''" "''treeClosure''"
        "testHeap 2" categories 0 testHeap 2 "Some (testHeap 3)" "Some 3"]
    by simp
qed

section \<open>The move plan of the test\<close>



section \<open>The transaction of a move\<close>

text \<open>
  Claim C6. For a closure-table entity the plan of \<open>move\<close> is one delete and one
  insert on the closure table, and \<open>move\<close> runs the delete, the insert and then
  \<open>save\<close> of the entity whose parent property has been set to the destination, each
  on the database that the write before it leaves, inside one transaction. Its result is
  the one below: no error exactly when all three writes succeed, and then the database
  is the one that \<open>save\<close> leaves; otherwise the error of the first write that fails
  (a type error when the parent relation has no join column), and then the database is
  the one \<open>move\<close> started from, whatever the writes before the failing one did to
  it. The entity object keeps the parent that was set when \<open>save\<close> is the write that
  fails.
\<close>

theorem move_is_atomic:
  assumes "treeType md = Some ''closure-table''"
  shows "\<exists>condition parameters closures.
      moveEntityQueriesBuilder conn md db ''treeEntity'' ''treeClosure'' (h entity) (map_option h to)
        = Inr [Delete (tableName (closureJunctionTable md)) condition parameters,
               Insert (tableName (closureJunctionTable md)) closures]
      \<and> move conn md db h entity to =
          (case execute conn (Delete (tableName (closureJunctionTable md)) condition parameters) db of
             Inl err \<Rightarrow> (Some err, h, db)
           | Inr db1 \<Rightarrow>
               (case execute conn (Insert (tableName (closureJunctionTable md)) closures) db1 of
                  Inl err \<Rightarrow> (Some err, h, db)
                | Inr db2 \<Rightarrow>
                    (case joinColumns (treeParentRelation md) of
                       [] \<Rightarrow> (Some TypeError, h, db)
                     | joinColumn # others \<Rightarrow>
                         (case save conn ((h entity)(propertyName joinColumn \<mapsto>
                                  (case to of None \<Rightarrow> VNull | Some t \<Rightarrow> VRef t))) db2 of
                            Inl err \<Rightarrow>
                              (Some err,
                               h(entity := (h entity)(propertyName joinColumn \<mapsto>
                                  (case to of None \<Rightarrow> VNull | Some t \<Rightarrow> VRef t))),
                               db)
                          | Inr db3 \<Rightarrow>
                              (None,
                               h(entity := (h entity)(propertyName joinColumn \<mapsto>
                                  (case to of None \<Rightarrow> VNull | Some t \<Rightarrow> VRef t))),
                               db3)))))
      \<and> (case move conn md db h entity to of
            (None, h', db') \<Rightarrow>
              (\<exists>db1 db2 joinColumn others.
                 execute conn (Delete (tableName (closureJunctionTable md)) condition parameters) db = Inr db1
                 \<and> execute conn (Insert (tableName (closureJunctionTable md)) closures) db1 = Inr db2
                 \<and> joinColumns (treeParentRelation md) = joinColumn # others
                 \<and> h' = h(entity := (h entity)(propertyName joinColumn \<mapsto>
                            (case to of None \<Rightarrow> VNull | Some t \<Rightarrow> VRef t)))
                 \<and> save conn (h' entity) db2 = Inr db')
          | (Some err, h', db') \<Rightarrow> db' = db)"
proof -
  obtain condition parameters closures where
    q: "moveEntityQueriesBuilder conn md db ''treeEntity'' ''treeClosure'' (h entity) (map_option h to) =
        Inr [Delete (tableName (closureJunctionTable md)) condition parameters,
               Insert (tableName (closureJunctionTable md)) closures]"
    using closure_plan_exists [OF assms] by blast
  have run: "move conn md db h entity to =
          (case execute conn (Delete (tableName (closureJunctionTable md)) condition parameters) db of
             Inl err \<Rightarrow> (Some err, h, db)
           | Inr db1 \<Rightarrow>
               (case execute conn (Insert (tableName (closureJunctionTable md)) closures) db1 of
                  Inl err \<Rightarrow> (Some err, h, db)
                | Inr db2 \<Rightarrow>
                    (case joinColumns (treeParentRelation md) of
                       [] \<Rightarrow> (Some TypeError, h, db)
                     | joinColumn # others \<Rightarrow>
                         (case save conn ((h entity)(propertyName joinColumn \<mapsto>
                                  (case to of None \<Rightarrow> VNull | Some t \<Rightarrow> VRef t))) db2 of
                            Inl err \<Rightarrow>
                              (Some err,
                               h(entity := (h entity)(propertyName joinColumn \<mapsto>
                                  (case to of None \<Rightarrow> VNull | Some t \<Rightarrow> VRef t))),
                               db)
                          | Inr db3 \<Rightarrow>
                              (None,
                               h(entity := (h entity)(propertyName joinColumn \<mapsto>
                                  (case to of None \<Rightarrow> VNull | Some t \<Rightarrow> VRef t))),
                               db3)))))"
    by (simp add: move_def q transaction_def Let_def split: sum.splits list.splits)
  have mv: "case move conn md db h entity to of
            (None, h', db') \<Rightarrow>
              (\<exists>db1 db2 joinColumn others.
                 execute conn (Delete (tableName (closureJunctionTable md)) condition parameters) db = Inr db1
                 \<and> execute conn (Insert (tableName (closureJunctionTable md)) closures) db1 = Inr db2
                 \<and> joinColumns (treeParentRelation md) = joinColumn # others
                 \<and> h' = h(entity := (h entity)(propertyName joinColumn \<mapsto>
                            (case to of None \<Rightarrow> VNull | Some t \<Rightarrow> VRef t)))
                 \<and> save conn (h' entity) db2 = Inr db')
          | (Some err, h', db') \<Rightarrow> db' = db"
    by (auto simp add: move_def q transaction_def Let_def split: sum.splits list.splits)
  show ?thesis
    apply (intro exI conjI)
      apply (rule q)
     apply (rule run)
    apply (rule mv)
    done
qed

text \<open>
  The move of B under C on three connections: one on which all three writes take effect,
  one on which the delete empties the closure table and the insert fails, and one on
  which the delete and the insert take effect and \<open>save\<close> fails.
\<close>

theorem move_is_atomic_witness:
  "treeType closureCategory = Some ''closure-table''
   \<and> (case move storing closureCategory categories testHeap 2 (Some 3) of
        (err, h', db') \<Rightarrow>
          err = None
          \<and> db' ''gh_193_closure'' =
              [closureRow 1 1, closureRow 3 3, closureRow 1 3, closureRow 4 4, closureRow 1 4, closureRow 3 4,
               closureRow 1 2, closureRow 3 2, closureRow 2 2]
          \<and> db' ''ClosureCategory'' =
              [category 1 ''A'', (category 2 ''B'')(''parentCategory'' \<mapsto> VRef 3), category 3 ''C'',
               category 4 ''D''])
   \<and> execute failingInsert
         (Delete ''gh_193_closure''
            (AnyOf [Parens (AllOf [Equals (BareColumn True ''id_descendant'') (Parameter ''id2'')])])
            [''id2'' \<mapsto> VNum 2]) categories
       = Inr (categories(''gh_193_closure'' := []))
   \<and> move failingInsert closureCategory categories testHeap 2 (Some 3)
       = (Some (Error ''insert failed''), testHeap, categories)
   \<and> move failingSave closureCategory categories testHeap 2 (Some 3)
       = (Some (Error ''save failed''), testHeap(2 := (testHeap 2)(''parentCategory'' \<mapsto> VRef 3)), categories)"
proof -
  let ?condition = "AnyOf [Parens (AllOf [Equals (BareColumn True ''id_descendant'') (Parameter ''id2'')])]"
  let ?closures = "[closureRow 1 2, closureRow 3 2, closureRow 2 2]"
  let ?table = "tableName (closureJunctionTable closureCategory)"
  let ?plan = "\<lambda>conn. moveEntityQueriesBuilder conn closureCategory categories ''treeEntity'' ''treeClosure''
      (testHeap 2) (map_option testHeap (Some 3))"
  let ?run = "\<lambda>conn dest c p cl.
      (case execute conn (Delete ?table c p) categories of
         Inl err \<Rightarrow> (Some err, testHeap, categories)
       | Inr db1 \<Rightarrow>
           (case execute conn (Insert ?table cl) db1 of
              Inl err \<Rightarrow> (Some err, testHeap, categories)
            | Inr db2 \<Rightarrow>
                (case joinColumns (treeParentRelation closureCategory) of
                   [] \<Rightarrow> (Some TypeError, testHeap, categories)
                 | joinColumn # others \<Rightarrow>
                     (case save conn ((testHeap 2)(propertyName joinColumn \<mapsto>
                              (case dest of None \<Rightarrow> VNull | Some t \<Rightarrow> VRef t))) db2 of
                        Inl err \<Rightarrow>
                          (Some err,
                           testHeap(2 := (testHeap 2)(propertyName joinColumn \<mapsto>
                              (case dest of None \<Rightarrow> VNull | Some t \<Rightarrow> VRef t))),
                           categories)
                      | Inr db3 \<Rightarrow>
                          (None,
                           testHeap(2 := (testHeap 2)(propertyName joinColumn \<mapsto>
                              (case dest of None \<Rightarrow> VNull | Some t \<Rightarrow> VRef t))),
                           db3)))))"
  have ct: "treeType closureCategory = Some ''closure-table''"
    by (simp add: closureCategory_def)
  have emptied: "execute failingInsert (Delete ''gh_193_closure'' ?condition [''id2'' \<mapsto> VNum 2]) categories
       = Inr (categories(''gh_193_closure'' := []))"
    by (simp add: failingInsert_def)
  have refused: "execute failingInsert (Insert ''gh_193_closure'' ?closures) (categories(''gh_193_closure'' := []))
       = Inl (Error ''insert failed'')"
    by (simp add: failingInsert_def)
  have unsaved: "\<And>entity db. save failingSave entity db = Inl (Error ''save failed'')"
    by (simp add: failingSave_def)
  have executed: "execute failingSave = execute storing"
    by (simp add: failingSave_def)
  from move_is_atomic [OF ct, of storing categories testHeap 2 "Some 3"]
  obtain c1 p1 cl1 where "?plan storing = Inr [Delete ?table c1 p1, Insert ?table cl1]"
    and "move storing closureCategory categories testHeap 2 (Some 3) = ?run storing (Some 3) c1 p1 cl1"
    by (elim exE conjE)
  then have "move storing closureCategory categories testHeap 2 (Some 3)
      = ?run storing (Some 3) ?condition [''id2'' \<mapsto> VNum 2] ?closures"
    by (clarsimp simp add: storing_plan)
  then have stored: "case move storing closureCategory categories testHeap 2 (Some 3) of
        (err, h', db') \<Rightarrow>
          err = None
          \<and> db' ''gh_193_closure'' =
              [closureRow 1 1, closureRow 3 3, closureRow 1 3, closureRow 4 4, closureRow 1 4, closureRow 3 4,
               closureRow 1 2, closureRow 3 2, closureRow 2 2]
          \<and> db' ''ClosureCategory'' =
              [category 1 ''A'', (category 2 ''B'')(''parentCategory'' \<mapsto> VRef 3), category 3 ''C'',
               category 4 ''D'']"
    by (simp add: category_table category_parent storing_delete_B storing_insert storing_save)
       (simp add: categories_def testHeap_def category_def closureRow_def)
  from move_is_atomic [OF ct, of failingInsert categories testHeap 2 "Some 3"]
  obtain c2 p2 cl2 where "?plan failingInsert = Inr [Delete ?table c2 p2, Insert ?table cl2]"
    and "move failingInsert closureCategory categories testHeap 2 (Some 3) = ?run failingInsert (Some 3) c2 p2 cl2"
    by (elim exE conjE)
  then have "move failingInsert closureCategory categories testHeap 2 (Some 3)
      = ?run failingInsert (Some 3) ?condition [''id2'' \<mapsto> VNum 2] ?closures"
    by (clarsimp simp add: failingInsert_plan)
  then have insert_fails: "move failingInsert closureCategory categories testHeap 2 (Some 3)
       = (Some (Error ''insert failed''), testHeap, categories)"
    by (simp add: category_table emptied refused)
  from move_is_atomic [OF ct, of failingSave categories testHeap 2 "Some 3"]
  obtain c3 p3 cl3 where "?plan failingSave = Inr [Delete ?table c3 p3, Insert ?table cl3]"
    and "move failingSave closureCategory categories testHeap 2 (Some 3) = ?run failingSave (Some 3) c3 p3 cl3"
    by (elim exE conjE)
  then have "move failingSave closureCategory categories testHeap 2 (Some 3)
      = ?run failingSave (Some 3) ?condition [''id2'' \<mapsto> VNum 2] ?closures"
    by (clarsimp simp add: failingSave_plan)
  then have save_fails: "move failingSave closureCategory categories testHeap 2 (Some 3)
       = (Some (Error ''save failed''), testHeap(2 := (testHeap 2)(''parentCategory'' \<mapsto> VRef 3)), categories)"
    by (simp add: category_table category_parent executed unsaved storing_delete_B storing_insert)
  from ct stored emptied insert_fails save_fails show ?thesis
    by (intro conjI)
qed

section \<open>A move with no descendants fetched\<close>

text \<open>
  Claim C10. For a closure-table entity for which \<open>findDescendants\<close> returns the
  empty list, \<open>moveEntityQueriesBuilder\<close> builds a delete whose condition has the
  empty text and no parameters, and an insert with no values.
\<close>

theorem move_without_descendants:
  assumes "treeType md = Some ''closure-table''"
    and "findDescendants conn md db entity = Inr []"
  shows "moveEntityQueriesBuilder conn md db alias cta entity to =
           Inr [Delete (tableName (closureJunctionTable md)) (descendantWhereCondition md []) Map.empty,
                Insert (tableName (closureJunctionTable md)) []]
    \<and> render (escape conn) (getQuery conn) (descendantWhereCondition md []) = []"
proof -
  obtain as where as: "(case to of None \<Rightarrow> Inr [] | Some t \<Rightarrow> findAncestors conn md db t) = Inr as"
    using closure_fetch_ancestors [OF assms(1)] by blast
  show ?thesis
    using closure_plan [OF assms as]
    by (simp add: descendantWhereCondition_def delAncestorsParameters_def closuresToInsert_def fold_keep)
qed

theorem move_without_descendants_witness:
  "treeType closureCategory = Some ''closure-table''
   \<and> findDescendants testConnection closureCategory (categories(''gh_193_closure'' := [])) (testHeap 2) = Inr []
   \<and> moveEntityQueriesBuilder testConnection closureCategory (categories(''gh_193_closure'' := []))
        ''unused'' ''unused'' (testHeap 2) (Some (testHeap 3)) =
       Inr [Delete ''gh_193_closure'' (AnyOf []) Map.empty, Insert ''gh_193_closure'' []]
   \<and> render (escape testConnection) (getQuery testConnection) (AnyOf []) = []"
proof -
  have ct: "treeType closureCategory = Some ''closure-table''"
    by (simp add: closureCategory_def)
  have none: "findDescendants testConnection closureCategory (categories(''gh_193_closure'' := [])) (testHeap 2) = Inr []"
    by (simp add: findDescendants_def runSelect_def createDescendantsQueryBuilder_def query_builder_defs test_defs)
  show ?thesis
    using ct none move_without_descendants [OF ct none, of "''unused''" "''unused''" "Some (testHeap 3)"]
    by (simp add: descendantWhereCondition_def closureCategory_def)
qed

section \<open>Materialized paths\<close>


















section \<open>Moves under the other encodings\<close>

text \<open>
  Claim C4, as first stated: for every entity whose encoding is not closure-table,
  \<open>moveEntityQueriesBuilder\<close> returns the empty list. It fails for an entity that
  declares no tree encoding, or one other than the three: there the descendants fetch
  throws, and no list is returned.
\<close>

theorem move_plan_of_non_tree_counterexample:
  "treeType (closureCategory\<lparr>treeType := None\<rparr>) \<noteq> Some ''closure-table''
   \<and> moveEntityQueriesBuilder testConnection (closureCategory\<lparr>treeType := None\<rparr>) categories
        ''treeEntity'' ''treeClosure'' (testHeap 2) (Some (testHeap 3))
       = Inl (Error ''Supported only in tree entities'')
   \<and> moveEntityQueriesBuilder testConnection (closureCategory\<lparr>treeType := None\<rparr>) categories
        ''treeEntity'' ''treeClosure'' (testHeap 2) (Some (testHeap 3)) \<noteq> Inr []
   \<and> treeType (closureCategory\<lparr>treeType := Some ''adjacency-list''\<rparr>) \<noteq> Some ''closure-table''
   \<and> moveEntityQueriesBuilder testConnection (closureCategory\<lparr>treeType := Some ''adjacency-list''\<rparr>)
        categories ''treeEntity'' ''treeClosure'' (testHeap 2) (Some (testHeap 3))
       = Inl (Error ''Supported only in tree entities'')"
  by (simp add: moveEntityQueriesBuilder_def findDescendants_def createDescendantsQueryBuilder_def)

text \<open>
  Claim C4, amended. For the nested-set and the materialized-path encoding
  \<open>moveEntityQueriesBuilder\<close> returns the empty list, so \<open>move\<close> executes no delete
  and no insert: it only sets the parent property of the entity and saves it, inside
  the transaction, and its result is the same whatever the connection would do with a
  delete or an insert.
\<close>

theorem move_plan_of_other_encodings:
  assumes "treeType md = Some ''nested-set'' \<or> treeType md = Some ''materialized-path''"
  shows "moveEntityQueriesBuilder conn md db alias cta entity to = Inr []
    \<and> move conn md db h a dest =
        (case joinColumns (treeParentRelation md) of
           [] \<Rightarrow> (Some TypeError, h, db)
         | joinColumn # others \<Rightarrow>
             (let h' = h(a := (h a)(propertyName joinColumn \<mapsto> (case dest of None \<Rightarrow> VNull | Some t \<Rightarrow> VRef t)))
              in (case save conn (h' a) db of
                    Inl err \<Rightarrow> (Some err, h', db)
                  | Inr db' \<Rightarrow> (None, h', db'))))
    \<and> (\<forall>ex. move (conn\<lparr>execute := ex\<rparr>) md db h a dest = move conn md db h a dest)"
proof -
  have plan: "moveEntityQueriesBuilder c md db al ct en dst = Inr []" for c al ct en dst
    using assms
    by (auto simp add: moveEntityQueriesBuilder_def findDescendants_def findAncestors_def
        createDescendantsQueryBuilder_def createAncestorsQueryBuilder_def Let_def split: option.splits)
  have mv: "move c md db h a dest =
        (case joinColumns (treeParentRelation md) of
           [] \<Rightarrow> (Some TypeError, h, db)
         | joinColumn # others \<Rightarrow>
             (let h' = h(a := (h a)(propertyName joinColumn \<mapsto> (case dest of None \<Rightarrow> VNull | Some t \<Rightarrow> VRef t)))
              in (case save c (h' a) db of
                    Inl err \<Rightarrow> (Some err, h', db)
                  | Inr db' \<Rightarrow> (None, h', db'))))" for c
    by (simp add: plan move_def transaction_def Let_def split: list.splits sum.splits)
  have "move (conn\<lparr>execute := ex\<rparr>) md db h a dest = move conn md db h a dest" for ex
    unfolding mv by (simp split: list.splits)
  then show ?thesis
    using plan [of conn] mv [of conn] by simp
qed

theorem move_plan_of_other_encodings_witness:
  "(treeType (closureCategory\<lparr>treeType := Some ''nested-set''\<rparr>) = Some ''nested-set''
     \<or> treeType (closureCategory\<lparr>treeType := Some ''nested-set''\<rparr>) = Some ''materialized-path'')
   \<and> moveEntityQueriesBuilder testConnection (closureCategory\<lparr>treeType := Some ''nested-set''\<rparr>) categories
        ''treeEntity'' ''treeClosure'' (testHeap 2) (Some (testHeap 3)) = Inr []
   \<and> move failingInsert (closureCategory\<lparr>treeType := Some ''nested-set''\<rparr>) categories testHeap 2 (Some 3)
       = (None, testHeap(2 := (testHeap 2)(''parentCategory'' \<mapsto> VRef 3)), categories)"
proof -
  let ?md = "closureCategory\<lparr>treeType := Some ''nested-set''\<rparr>"
  have a: "treeType ?md = Some ''nested-set'' \<or> treeType ?md = Some ''materialized-path''" by simp
  show ?thesis
    using a
      move_plan_of_other_encodings [OF a, of testConnection categories "''treeEntity''" "''treeClosure''"
        "testHeap 2" "Some (testHeap 3)"]
      move_plan_of_other_encodings [OF a, of failingInsert categories _ _ _ _ testHeap 2 "Some 3"]
    by (simp add: closureCategory_def testConnection_def failingInsert_def)
qed

section \<open>The ancestors tree\<close>

lemma find_never: "find (\<lambda>x. False) xs = None"
  by (induction xs) simp_all

lemma strict_eq_equal: "strict_eq v w \<Longrightarrow> v = w"
  by (cases v; cases w) simp_all

lemma locateParent_edge:
  assumes "locateParent md entities relationMaps h entity = Some p"
  shows "(getEntityValue (fst (primaryColumns md)) (h entity),
          getEntityValue (fst (primaryColumns md)) (h p)) \<in> parentEdges relationMaps"
proof -
  let ?v = "getEntityValue (fst (primaryColumns md)) (h entity)"
  obtain rm where rm: "find (\<lambda>relationMap. strict_eq (id' relationMap) ?v) relationMaps = Some rm"
    using assms by (cases "find (\<lambda>relationMap. strict_eq (id' relationMap) ?v) relationMaps")
      (auto simp add: locateParent_def Let_def find_never)
  then have mem: "rm \<in> set relationMaps" and idv: "id' rm = ?v"
    by (auto simp add: find_Some_iff dest: strict_eq_equal)
  from assms rm have "strict_eq (getProp (h p) (propertyName (fst (primaryColumns md)))) (parentId rm)"
    by (auto simp add: locateParent_def Let_def find_Some_iff)
  then have "getEntityValue (fst (primaryColumns md)) (h p) = parentId rm"
    by (simp add: getEntityValue_def strict_eq_equal)
  with mem idv show ?thesis
    by (force simp add: parentEdges_def)
qed

lemma locateParent_same_keys:
  assumes "\<And>x. (h1 x) (propertyName (fst (primaryColumns md))) = (h x) (propertyName (fst (primaryColumns md)))"
  shows "locateParent md entities relationMaps h1 a = locateParent md entities relationMaps h a"
proof -
  have "getProp (h1 x) (propertyName (fst (primaryColumns md))) = getProp (h x) (propertyName (fst (primaryColumns md)))" for x
    by (simp add: getProp_def assms)
  then show ?thesis
    by (simp add: locateParent_def getEntityValue_def cong: option.case_cong)
qed

lemma ranked_acyclic:
  assumes "\<And>relationMap. relationMap \<in> set relationMaps \<Longrightarrow> rank (parentId relationMap) < rank (id' relationMap)"
  shows "acyclic (parentEdges relationMaps)"
proof -
  have "parentEdges relationMaps \<subseteq> (measure rank)\<inverse>"
    using assms by (auto simp add: parentEdges_def)
  moreover have "acyclic ((measure rank)\<inverse>)"
    by (simp add: wf_acyclic)
  ultimately show ?thesis
    by (rule acyclic_subset [rotated])
qed

lemma locateParent_None:
  "(locateParent md entities relationMaps h entity = None) =
     (case find (\<lambda>relationMap. strict_eq (id' relationMap) (getEntityValue (fst (primaryColumns md)) (h entity)))
             relationMaps of
        None \<Rightarrow> True
      | Some relationMap \<Rightarrow>
          \<not> list_ex (\<lambda>e. strict_eq (getProp (h e) (propertyName (fst (primaryColumns md)))) (parentId relationMap))
               entities)"
proof (cases "find (\<lambda>relationMap. strict_eq (id' relationMap) (getEntityValue (fst (primaryColumns md)) (h entity)))
             relationMaps")
  case None
  then show ?thesis
    by (simp add: locateParent_def find_never)
next
  case (Some relationMap)
  then show ?thesis
    by (auto simp add: locateParent_def find_None_iff list_ex_iff)
qed

text \<open>
  Claim C8. \<open>buildParentEntityTree\<close> returns for every acyclic relation map: some
  depth of calls is enough. It goes upwards from the given entity. At an entity for which
  no parent is located (no relation-map entry for its id, or no fetched entity whose
  primary property is the entry's parent id) it returns with no change; and when the
  parent property is another property than the primary one, the heap it leaves differs
  from the one it started with only at entities that have received, as their parent,
  the entity located for them.
\<close>

theorem buildParentEntityTree_terminates:
  assumes acyc: "acyclic (parentEdges relationMaps)"
  shows "\<exists>n h'. buildParentEntityTree n md entities relationMaps entity h = Some h'
     \<and> (locateParent md entities relationMaps h entity = None \<longrightarrow> h' = h)
     \<and> (relationPropertyName (treeParentRelation md) \<noteq> propertyName (fst (primaryColumns md)) \<longrightarrow>
          (\<forall>a. h' a = h a
            \<or> (\<exists>p. locateParent md entities relationMaps h a = Some p
                   \<and> h' a = (h a)(relationPropertyName (treeParentRelation md) \<mapsto> VRef p))))"
proof -
  let ?pk = "propertyName (fst (primaryColumns md))"
  let ?pp = "relationPropertyName (treeParentRelation md)"
  have "finite (parentEdges relationMaps)"
    by (simp add: parentEdges_def)
  then have wf: "wf ((parentEdges relationMaps)\<inverse>)"
    using acyc by (rule finite_acyclic_wf_converse)
  have "\<forall>(h::heap) (entity::addr). getEntityValue (fst (primaryColumns md)) (h entity) = v \<longrightarrow>
      (\<exists>n h'. buildParentEntityTree n md entities relationMaps entity h = Some h'
         \<and> (locateParent md entities relationMaps h entity = None \<longrightarrow> h' = h)
         \<and> (?pp \<noteq> ?pk \<longrightarrow>
              (\<forall>a. h' a = h a
                \<or> (\<exists>p. locateParent md entities relationMaps h a = Some p
                       \<and> h' a = (h a)(?pp \<mapsto> VRef p)))))" for v
    using wf
  proof (induction v rule: wf_induct_rule)
    case (less v)
    show ?case
    proof (intro allI impI)
      fix h :: heap and entity :: addr
      assume v: "getEntityValue (fst (primaryColumns md)) (h entity) = v"
      show "\<exists>n h'. buildParentEntityTree n md entities relationMaps entity h = Some h'
         \<and> (locateParent md entities relationMaps h entity = None \<longrightarrow> h' = h)
         \<and> (?pp \<noteq> ?pk \<longrightarrow>
              (\<forall>a. h' a = h a
                \<or> (\<exists>p. locateParent md entities relationMaps h a = Some p
                       \<and> h' a = (h a)(?pp \<mapsto> VRef p))))"
      proof (cases "locateParent md entities relationMaps h entity")
        case None
        then have "buildParentEntityTree (Suc 0) md entities relationMaps entity h = Some h"
          by simp
        then show ?thesis by blast
      next
        case (Some p)
        let ?h1 = "h(entity := (h entity)(?pp \<mapsto> VRef p))"
        have edge: "(v, getEntityValue (fst (primaryColumns md)) (h p)) \<in> parentEdges relationMaps"
          using locateParent_edge [OF Some] v by simp
        have other: "p \<noteq> entity"
        proof
          assume "p = entity"
          with edge v have "(v, v) \<in> (parentEdges relationMaps)\<^sup>+"
            by (simp add: r_into_trancl)
          with acyc show False
            by (simp add: acyclic_def)
        qed
        then have pv: "getEntityValue (fst (primaryColumns md)) (?h1 p) = getEntityValue (fst (primaryColumns md)) (h p)"
          by simp
        from edge have "(getEntityValue (fst (primaryColumns md)) (h p), v) \<in> (parentEdges relationMaps)\<inverse>"
          by simp
        from less.IH [OF this, rule_format, of ?h1 p, OF pv]
        obtain n h' where run: "buildParentEntityTree n md entities relationMaps p ?h1 = Some h'"
          and post: "?pp \<noteq> ?pk \<longrightarrow> (\<forall>a. h' a = ?h1 a
            \<or> (\<exists>q. locateParent md entities relationMaps ?h1 a = Some q
                   \<and> h' a = (?h1 a)(?pp \<mapsto> VRef q)))"
          by blast
        have step: "buildParentEntityTree (Suc n) md entities relationMaps entity h = Some h'"
          using Some run by simp
        have c2: "locateParent md entities relationMaps h entity = None \<longrightarrow> h' = h"
          using Some by simp
        have c3: "?pp \<noteq> ?pk \<longrightarrow> (\<forall>a. h' a = h a
            \<or> (\<exists>p. locateParent md entities relationMaps h a = Some p
                   \<and> h' a = (h a)(?pp \<mapsto> VRef p)))"
        proof (intro impI allI)
          fix a
          assume names: "?pp \<noteq> ?pk"
          have keys: "(?h1 x) ?pk = (h x) ?pk" for x
            using names by simp
          have same: "locateParent md entities relationMaps ?h1 a = locateParent md entities relationMaps h a"
            by (rule locateParent_same_keys) (rule keys)
          from post names have "h' a = ?h1 a
            \<or> (\<exists>q. locateParent md entities relationMaps ?h1 a = Some q
                   \<and> h' a = (?h1 a)(?pp \<mapsto> VRef q))"
            by blast
          then have "h' a = ?h1 a
            \<or> (\<exists>q. locateParent md entities relationMaps h a = Some q
                   \<and> h' a = (?h1 a)(?pp \<mapsto> VRef q))"
            by (simp only: same)
          then show "h' a = h a
            \<or> (\<exists>p. locateParent md entities relationMaps h a = Some p
                   \<and> h' a = (h a)(?pp \<mapsto> VRef p))"
            using Some by (cases "a = entity") auto
        qed
        show ?thesis
          by (intro exI conjI) (rule step, rule c2, rule c3)
      qed
    qed
  qed
  then show ?thesis by blast
qed

theorem buildParentEntityTree_terminates_witness:
  "acyclic (parentEdges categoryRelationMaps)
   \<and> relationPropertyName (treeParentRelation closureCategory) \<noteq> propertyName (fst (primaryColumns closureCategory))
   \<and> (\<exists>n h'. buildParentEntityTree n closureCategory [1, 2, 3, 4] categoryRelationMaps 4 hydratedHeap = Some h')
   \<and> buildParentEntityTree (Suc (Suc (Suc 0))) closureCategory [1, 2, 3, 4] categoryRelationMaps 4 hydratedHeap
       = Some (hydratedHeap(4 := (category 4 ''D'')(''parentCategory'' \<mapsto> VRef 3),
                            3 := (category 3 ''C'')(''parentCategory'' \<mapsto> VRef 1)))"
proof -
  have ac: "acyclic (parentEdges categoryRelationMaps)"
    by (rule ranked_acyclic) (auto simp add: categoryRelationMaps_def rank_def)
  have nm: "relationPropertyName (treeParentRelation closureCategory) \<noteq> propertyName (fst (primaryColumns closureCategory))"
    by (simp add: closureCategory_def idColumn_def)
  have ex: "\<exists>n h'. buildParentEntityTree n closureCategory [1, 2, 3, 4] categoryRelationMaps 4 hydratedHeap = Some h'"
    using buildParentEntityTree_terminates [OF ac, of closureCategory "[1, 2, 3, 4]" 4 hydratedHeap] by blast
  have run: "buildParentEntityTree (Suc (Suc (Suc 0))) closureCategory [1, 2, 3, 4] categoryRelationMaps 4 hydratedHeap
       = Some (hydratedHeap(4 := (category 4 ''D'')(''parentCategory'' \<mapsto> VRef 3),
                            3 := (category 3 ''C'')(''parentCategory'' \<mapsto> VRef 1)))"
    by (simp add: locateParent_def closureCategory_def idColumn_def categoryRelationMaps_def hydratedHeap_def
        category_def getEntityValue_def getProp_def Let_def)
  from ac nm ex run show ?thesis by blast
qed

section \<open>The descendants tree\<close>

lemma strict_eq_undefined: "strict_eq i VUndefined = (i = VUndefined)"
  by (cases i) simp_all

text \<open>
  Claim C9, as first stated: for every entity type whose primary property is not named
  \<open>id\<close> the children collection that \<open>buildChildrenEntityTree\<close> assigns is empty.
  It fails for an entity type with the primary column \<open>key\<close> and a plain column
  \<open>id\<close>: the children of A (key 1) are selected by the \<open>id\<close> property, so A gets C,
  whose \<open>id\<close> is the key 2 of A's child B, and the collection is not empty.
\<close>

theorem children_by_literal_id_counterexample:
  "propertyName (fst (primaryColumns keyedCategory)) \<noteq> ''id''
   \<and> buildChildrenEntityTree (Suc (Suc 0)) keyedCategory [2, 3] keyedRelationMaps 1 keyedHeap
       = Some (keyedHeap(1 := (keyed 1 7 ''A'')(''childCategories'' \<mapsto> VArr [3]),
                         3 := (keyed 3 2 ''C'')(''childCategories'' \<mapsto> VArr [])))
   \<and> VArr [3] \<noteq> VArr []"
  by (simp add: keyedCategory_def closureCategory_def keyColumn_def keyedRelationMaps_def keyedHeap_def
      keyed_def getEntityValue_def getProp_def Let_def)


text \<open>
  Claim C9, amended. \<open>buildChildrenEntityTree\<close> compares the child ids of the relation
  map with the property \<open>id\<close> of each fetched entity, whatever the primary column is
  called. Hence, when no fetched entity has a property named \<open>id\<close> (the primary key has
  another name and no other column is called \<open>id\<close>) and no relation-map id is
  \<open>undefined\<close>, the call returns at once and the children collection it assigns is
  empty, whatever was fetched.
\<close>

theorem children_by_literal_id:
  assumes "\<forall>e \<in> set entities. (h e) ''id'' = None"
    and "\<forall>relationMap \<in> set relationMaps. id' relationMap \<noteq> VUndefined"
  shows "buildChildrenEntityTree (Suc n) md entities relationMaps entity h =
     Some (h(entity := (h entity)(relationPropertyName (treeChildrenRelation md) \<mapsto> VArr [])))"
proof -
  let ?childIds = "map id' (filter (\<lambda>relationMap. strict_eq (parentId relationMap)
      (getEntityValue (fst (primaryColumns md)) (h entity))) relationMaps)"
  have ids: "\<not> list_ex (\<lambda>i. strict_eq i VUndefined) ?childIds"
    using assms(2) by (auto simp add: list_ex_iff strict_eq_undefined)
  have "filter (\<lambda>e. list_ex (\<lambda>i. strict_eq i (getProp (h e) ''id'')) ?childIds) entities = []"
    using assms(1) ids by (auto simp add: filter_empty_conv getProp_def)
  then show ?thesis
    by (simp add: Let_def)
qed

theorem children_by_literal_id_witness:
  "(keyOnlyHeap 2) ''id'' = None
   \<and> id' \<lparr>id' = VNum 2, parentId = VNum 1\<rparr> \<noteq> VUndefined
   \<and> buildChildrenEntityTree (Suc 0) keyedCategory [2] [\<lparr>id' = VNum 2, parentId = VNum 1\<rparr>] 1 keyOnlyHeap
       = Some (keyOnlyHeap(1 := (keyOnlyHeap 1)(''childCategories'' \<mapsto> VArr [])))"
proof -
  have a: "\<forall>e \<in> set [2]. (keyOnlyHeap e) ''id'' = None"
    by (simp add: keyOnlyHeap_def)
  have b: "\<forall>relationMap \<in> set [\<lparr>id' = VNum 2, parentId = VNum 1\<rparr>]. id' relationMap \<noteq> VUndefined"
    by simp
  show ?thesis
    using a b children_by_literal_id [where entities = "[2]" and h = keyOnlyHeap
        and relationMaps = "[\<lparr>id' = VNum 2, parentId = VNum 1\<rparr>]"
        and n = 0 and md = keyedCategory and entity = 1, OF a b]
    by (simp add: keyedCategory_def closureCategory_def)
qed

section \<open>What the closure-table finders return\<close>

lemma parameters_of_fold:
  "fold (\<lambda>column ps. ps(propertyName (referencedColumn column) \<mapsto> getEntityValue (referencedColumn column) e)) cols m k
     = (if k \<in> (\<lambda>column. propertyName (referencedColumn column)) ` set cols then Some (getProp e k) else m k)"
  by (induction cols arbitrary: m) (auto simp add: getEntityValue_def)

lemma parameter_of_fold:
  assumes "c \<in> set cols"
  shows "getProp (fold (\<lambda>column ps. ps(propertyName (referencedColumn column) \<mapsto> getEntityValue (referencedColumn column) e)) cols m)
           (propertyName (referencedColumn c)) = getProp e (propertyName (referencedColumn c))"
  using assms by (subst getProp_def) (simp add: parameters_of_fold)

lemma holds_AllOf_map: "holds db ps env (AllOf (map f cs)) = (\<forall>c \<in> set cs. holds db ps env (f c))"
  by (simp add: list_all_iff)

lemma descendants_rows:
  assumes "treeType md = Some ''closure-table''" and "getMany conn = runSelect"
  shows "findDescendants conn md db e =
     Inr (filter (\<lambda>row. \<exists>j \<in> set (db (tableName (closureJunctionTable md))).
            (\<forall>c \<in> set (descendantColumns (closureJunctionTable md)).
                sql_eq (getProp j (propertyPath c)) (getProp row (propertyPath (referencedColumn c))))
          \<and> (\<forall>c \<in> set (ancestorColumns (closureJunctionTable md)).
                sql_eq (getProp j (propertyPath c)) (getProp e (propertyName (referencedColumn c)))))
        (db (targetName md)))"
  using assms
  by (simp add: findDescendants_def createDescendantsQueryBuilder_def runSelect_def setParameters_def
      whereCond_def innerJoin_def createQueryBuilder_def Let_def list_ex_iff list_all_iff
      parameter_of_fold cong: ball_cong)

lemma ancestors_rows:
  assumes "treeType md = Some ''closure-table''" and "getMany conn = runSelect"
  shows "findAncestors conn md db e =
     Inr (filter (\<lambda>row. \<exists>j \<in> set (db (tableName (closureJunctionTable md))).
            (\<forall>c \<in> set (ancestorColumns (closureJunctionTable md)).
                sql_eq (getProp j (propertyPath c)) (getProp row (propertyPath (referencedColumn c))))
          \<and> (\<forall>c \<in> set (descendantColumns (closureJunctionTable md)).
                sql_eq (getProp j (propertyPath c)) (getProp e (propertyName (referencedColumn c)))))
        (db (targetName md)))"
  using assms
  by (simp add: findAncestors_def createAncestorsQueryBuilder_def runSelect_def setParameters_def
      whereCond_def innerJoin_def createQueryBuilder_def Let_def list_ex_iff list_all_iff
      parameter_of_fold cong: ball_cong)


lemma sql_eq_set: "w \<noteq> VNull \<Longrightarrow> w \<noteq> VUndefined \<Longrightarrow> sql_eq v w = (v = w)"
  by (auto simp add: sql_eq_def)

lemma key_match:
  assumes refs: "map referencedColumn cols = fst (primaryColumns md) # snd (primaryColumns md)"
    and set: "list_all (\<lambda>v. v \<noteq> VNull \<and> v \<noteq> VUndefined) (entityKey md row)"
  shows "(\<forall>c \<in> set cols. sql_eq (getProp j (propertyPath c)) (getProp row (propertyName (referencedColumn c))))
     = (map (\<lambda>c. getProp j (propertyPath c)) cols = entityKey md row)"
proof -
  have pcs: "entityKey md row = map (\<lambda>c. getProp row (propertyName (referencedColumn c))) cols"
    unfolding entityKey_def refs [symmetric] by (simp add: comp_def)
  have "getProp row (propertyName (referencedColumn c)) \<noteq> VNull
      \<and> getProp row (propertyName (referencedColumn c)) \<noteq> VUndefined" if "c \<in> set cols" for c
    using set that unfolding pcs by (simp add: list_all_iff)
  then have "(\<forall>c \<in> set cols. sql_eq (getProp j (propertyPath c)) (getProp row (propertyName (referencedColumn c))))
     = (\<forall>c \<in> set cols. getProp j (propertyPath c) = getProp row (propertyName (referencedColumn c)))"
    by (simp add: sql_eq_set cong: ball_cong)
  then show ?thesis
    unfolding pcs by (simp add: map_eq_conv)
qed

lemma regular_paths:
  assumes "regular md" and "c \<in> set (ancestorColumns (closureJunctionTable md)) \<or> c \<in> set (descendantColumns (closureJunctionTable md))"
  shows "propertyPath (referencedColumn c) = propertyName (referencedColumn c)"
proof -
  have "referencedColumn c \<in> set (map referencedColumn (ancestorColumns (closureJunctionTable md)))
      \<or> referencedColumn c \<in> set (map referencedColumn (descendantColumns (closureJunctionTable md)))"
    using assms(2) by auto
  then have "referencedColumn c \<in> set (fst (primaryColumns md) # snd (primaryColumns md))"
    using assms(1) unfolding regular_def by metis
  then show ?thesis
    using assms(1) unfolding regular_def list_all_iff by blast
qed

lemma key_match_path:
  assumes reg: "regular md"
    and cols: "cols = ancestorColumns (closureJunctionTable md) \<or> cols = descendantColumns (closureJunctionTable md)"
    and set: "list_all (\<lambda>v. v \<noteq> VNull \<and> v \<noteq> VUndefined) (entityKey md row)"
  shows "(\<forall>c \<in> set cols. sql_eq (getProp j (propertyPath c)) (getProp row (propertyPath (referencedColumn c))))
     = (map (\<lambda>c. getProp j (propertyPath c)) cols = entityKey md row)"
proof -
  have refs: "map referencedColumn cols = fst (primaryColumns md) # snd (primaryColumns md)"
    using reg cols unfolding regular_def by metis
  have "propertyPath (referencedColumn c) = propertyName (referencedColumn c)" if "c \<in> set cols" for c
    using regular_paths [OF reg, of c] cols that by blast
  then have "(\<forall>c \<in> set cols. sql_eq (getProp j (propertyPath c)) (getProp row (propertyPath (referencedColumn c))))
     = (\<forall>c \<in> set cols. sql_eq (getProp j (propertyPath c)) (getProp row (propertyName (referencedColumn c))))"
    by (simp cong: ball_cong)
  then show ?thesis
    using key_match [OF refs set, of j] by simp
qed


lemma category_paths:
  "((d, a) \<in> categoryEdges\<^sup>*) =
     (d = a \<or> (d, a) \<in> {([VNum 2], [VNum 1]), ([VNum 3], [VNum 1]), ([VNum 4], [VNum 3]), ([VNum 4], [VNum 1])})"
proof
  assume "(d, a) \<in> categoryEdges\<^sup>*"
  then show "d = a \<or> (d, a) \<in> {([VNum 2], [VNum 1]), ([VNum 3], [VNum 1]), ([VNum 4], [VNum 3]), ([VNum 4], [VNum 1])}"
  proof (induction rule: rtrancl_induct)
    case base
    then show ?case by simp
  next
    case (step y z)
    then show ?case by (auto simp add: categoryEdges_def)
  qed
next
  have e: "([VNum 4], [VNum 3]) \<in> categoryEdges" "([VNum 3], [VNum 1]) \<in> categoryEdges"
    "([VNum 2], [VNum 1]) \<in> categoryEdges"
    by (simp_all add: categoryEdges_def)
  have "([VNum 4], [VNum 1]) \<in> categoryEdges\<^sup>*"
    using e(1) e(2) by (meson r_into_rtrancl rtrancl_trans)
  moreover assume "d = a \<or> (d, a) \<in> {([VNum 2], [VNum 1]), ([VNum 3], [VNum 1]), ([VNum 4], [VNum 3]), ([VNum 4], [VNum 1])}"
  ultimately show "(d, a) \<in> categoryEdges\<^sup>*"
    using e by auto
qed

lemma closureCategory_regular: "regular closureCategory"
  by (simp add: regular_def closureCategory_def closureColumn_def idColumn_def)

lemma categories_keysSet: "keysSet closureCategory categories"
  by (simp add: keysSet_def entityKey_def closureCategory_def idColumn_def categories_def category_def getProp_def)

lemma categories_closure: "closureOf closureCategory categories categoryEdges"
  unfolding closureOf_def category_paths
  by (simp add: ancestorKey_def descendantKey_def entityKey_def closureCategory_def closureColumn_def
      idColumn_def categories_def category_def closureRow_def getProp_def)
     auto


lemma category_B_key: "entityKey closureCategory (testHeap 2) = [VNum 2]"
  by (simp add: entityKey_def closureCategory_def idColumn_def testHeap_def category_def getProp_def)

lemma category_C_key: "entityKey closureCategory (testHeap 3) = [VNum 3]"
  by (simp add: entityKey_def closureCategory_def idColumn_def testHeap_def category_def getProp_def)

text \<open>
  Claim C3, as first stated: with a closure table that is the closure of the tree,
  reflexive pairs included, \<open>findDescendants\<close> returns the entities reachable by child
  edges, the entity itself excluded, and \<open>findAncestors\<close> those reachable by parent
  edges, the entity itself excluded. It fails on the four categories of the test: B has
  no child, and \<open>findDescendants\<close> of B returns B (its reflexive closure row joins B
  to itself); \<open>findAncestors\<close> of C returns A and C.
\<close>

theorem finders_include_entity_counterexample:
  "closureOf closureCategory categories categoryEdges
   \<and> findDescendants testConnection closureCategory categories (testHeap 2) = Inr [category 2 ''B'']
   \<and> entityKey closureCategory (category 2 ''B'') = entityKey closureCategory (testHeap 2)
   \<and> findAncestors testConnection closureCategory categories (testHeap 3) = Inr [category 1 ''A'', category 3 ''C'']
   \<and> entityKey closureCategory (category 3 ''C'') = entityKey closureCategory (testHeap 3)"
  using categories_closure
  by (simp add: findDescendants_def findAncestors_def runSelect_def
      createDescendantsQueryBuilder_def createAncestorsQueryBuilder_def query_builder_defs test_defs
      sql_eq_def entityKey_def)


text \<open>
  Claim C3, amended. For a closure-table entity with regular metadata, keys that are
  set, and a closure table that is the closure of the parent edges with every reflexive
  pair, \<open>findDescendants\<close> of an entity of the table returns exactly the entities
  from which the entity is reached along zero or more parent edges (the entities it
  reaches along child edges), the entity itself included, and \<open>findAncestors\<close>
  exactly the entities reached from it along zero or more parent edges, the entity
  itself included; both in the order of the table. The select queries are executed as
  section "Executing a select query" reads them.
\<close>

theorem closure_finders:
  assumes ct: "treeType md = Some ''closure-table''"
    and gm: "getMany conn = runSelect"
    and reg: "regular md"
    and keys: "keysSet md db"
    and clo: "closureOf md db edges"
    and ent: "entityKey md entity \<in> entityKey md ` set (db (targetName md))"
  shows "findDescendants conn md db entity =
           Inr (filter (\<lambda>row. (entityKey md row, entityKey md entity) \<in> edges\<^sup>*) (db (targetName md)))
       \<and> findAncestors conn md db entity =
           Inr (filter (\<lambda>row. (entityKey md entity, entityKey md row) \<in> edges\<^sup>*) (db (targetName md)))
       \<and> entityKey md entity \<in> entityKey md `
             set (filter (\<lambda>row. (entityKey md row, entityKey md entity) \<in> edges\<^sup>*) (db (targetName md)))
       \<and> entityKey md entity \<in> entityKey md `
             set (filter (\<lambda>row. (entityKey md entity, entityKey md row) \<in> edges\<^sup>*) (db (targetName md)))"
proof -
  let ?rows = "db (targetName md)"
  let ?jrows = "db (tableName (closureJunctionTable md))"
  let ?anc = "ancestorColumns (closureJunctionTable md)"
  let ?desc = "descendantColumns (closureJunctionTable md)"
  have ra: "map referencedColumn ?anc = fst (primaryColumns md) # snd (primaryColumns md)"
    and rd: "map referencedColumn ?desc = fst (primaryColumns md) # snd (primaryColumns md)"
    using reg unfolding regular_def by blast+
  have set_row: "list_all (\<lambda>v. v \<noteq> VNull \<and> v \<noteq> VUndefined) (entityKey md row)"
    if "row \<in> set ?rows" for row
    using keys that unfolding keysSet_def list_all_iff by blast
  obtain r0 where r0: "r0 \<in> set ?rows" and k0: "entityKey md entity = entityKey md r0"
    using ent by blast
  have set_ent: "list_all (\<lambda>v. v \<noteq> VNull \<and> v \<noteq> VUndefined) (entityKey md entity)"
    using set_row [OF r0] by (simp only: k0)
  have in_closure: "(\<exists>j \<in> set ?jrows. ancestorKey md j = entityKey md a \<and> descendantKey md j = entityKey md d)
      = ((entityKey md d, entityKey md a) \<in> edges\<^sup>*)"
    if "entityKey md a \<in> entityKey md ` set ?rows" and "entityKey md d \<in> entityKey md ` set ?rows" for a d
    using clo [unfolded closureOf_def, rule_format, of "entityKey md a" "entityKey md d"] that
    by (simp only: simp_thms)
  have rowkey: "entityKey md row \<in> entityKey md ` set ?rows" if "row \<in> set ?rows" for row
    using that by (rule imageI)
  have desc: "(\<exists>j \<in> set ?jrows.
            (\<forall>c \<in> set ?desc. sql_eq (getProp j (propertyPath c)) (getProp row (propertyPath (referencedColumn c))))
          \<and> (\<forall>c \<in> set ?anc. sql_eq (getProp j (propertyPath c)) (getProp entity (propertyName (referencedColumn c)))))
       = ((entityKey md row, entityKey md entity) \<in> edges\<^sup>*)" if row: "row \<in> set ?rows" for row
  proof -
    have a: "(\<forall>c \<in> set ?desc. sql_eq (getProp j (propertyPath c)) (getProp row (propertyPath (referencedColumn c))))
        = (descendantKey md j = entityKey md row)" for j
      unfolding descendantKey_def
      by (rule key_match_path [OF reg _ set_row [OF row]]) simp
    have b: "(\<forall>c \<in> set ?anc. sql_eq (getProp j (propertyPath c)) (getProp entity (propertyName (referencedColumn c))))
        = (ancestorKey md j = entityKey md entity)" for j
      unfolding ancestorKey_def
      by (rule key_match [OF ra set_ent])
    show ?thesis
      unfolding a b using in_closure [OF ent rowkey [OF row]] by (simp only: conj_commute)
  qed
  have anc: "(\<exists>j \<in> set ?jrows.
            (\<forall>c \<in> set ?anc. sql_eq (getProp j (propertyPath c)) (getProp row (propertyPath (referencedColumn c))))
          \<and> (\<forall>c \<in> set ?desc. sql_eq (getProp j (propertyPath c)) (getProp entity (propertyName (referencedColumn c)))))
       = ((entityKey md entity, entityKey md row) \<in> edges\<^sup>*)" if row: "row \<in> set ?rows" for row
  proof -
    have a: "(\<forall>c \<in> set ?anc. sql_eq (getProp j (propertyPath c)) (getProp row (propertyPath (referencedColumn c))))
        = (ancestorKey md j = entityKey md row)" for j
      unfolding ancestorKey_def
      by (rule key_match_path [OF reg _ set_row [OF row]]) simp
    have b: "(\<forall>c \<in> set ?desc. sql_eq (getProp j (propertyPath c)) (getProp entity (propertyName (referencedColumn c))))
        = (descendantKey md j = entityKey md entity)" for j
      unfolding descendantKey_def
      by (rule key_match [OF rd set_ent])
    show ?thesis
      unfolding a b using in_closure [OF rowkey [OF row] ent] by (simp only:)
  qed
  have d: "findDescendants conn md db entity =
           Inr (filter (\<lambda>row. (entityKey md row, entityKey md entity) \<in> edges\<^sup>*) ?rows)"
    unfolding descendants_rows [OF ct gm] using desc by (simp only: cong: filter_cong)
  have a: "findAncestors conn md db entity =
           Inr (filter (\<lambda>row. (entityKey md entity, entityKey md row) \<in> edges\<^sup>*) ?rows)"
    unfolding ancestors_rows [OF ct gm] using anc by (simp only: cong: filter_cong)
  have "r0 \<in> set (filter (\<lambda>row. (entityKey md row, entityKey md entity) \<in> edges\<^sup>*) ?rows)"
    using r0 by (simp add: k0)
  then have sd: "entityKey md entity \<in> entityKey md `
             set (filter (\<lambda>row. (entityKey md row, entityKey md entity) \<in> edges\<^sup>*) ?rows)"
    unfolding k0 [of] by (rule imageI)
  have "r0 \<in> set (filter (\<lambda>row. (entityKey md entity, entityKey md row) \<in> edges\<^sup>*) ?rows)"
    using r0 by (simp add: k0)
  then have sa: "entityKey md entity \<in> entityKey md `
             set (filter (\<lambda>row. (entityKey md entity, entityKey md row) \<in> edges\<^sup>*) ?rows)"
    unfolding k0 [of] by (rule imageI)
  from d a sd sa show ?thesis by (intro conjI)
qed


theorem closure_finders_witness:
  "treeType closureCategory = Some ''closure-table''
   \<and> getMany testConnection = runSelect
   \<and> regular closureCategory
   \<and> keysSet closureCategory categories
   \<and> closureOf closureCategory categories categoryEdges
   \<and> entityKey closureCategory (testHeap 3) \<in> entityKey closureCategory ` set (categories (targetName closureCategory))
   \<and> findDescendants testConnection closureCategory categories (testHeap 3) = Inr [category 3 ''C'', category 4 ''D'']
   \<and> findAncestors testConnection closureCategory categories (testHeap 3) = Inr [category 1 ''A'', category 3 ''C'']"
proof -
  have ct: "treeType closureCategory = Some ''closure-table''"
    by (simp add: closureCategory_def)
  have gm: "getMany testConnection = runSelect"
    by (simp add: testConnection_def)
  have ent: "entityKey closureCategory (testHeap 3) \<in> entityKey closureCategory ` set (categories (targetName closureCategory))"
    unfolding category_C_key
    by (simp add: entityKey_def closureCategory_def idColumn_def categories_def category_def getProp_def)
  have rows: "categories (targetName closureCategory) = [category 1 ''A'', category 2 ''B'', category 3 ''C'', category 4 ''D'']"
    by (simp add: closureCategory_def categories_def)
  have key: "entityKey closureCategory (category i name) = [VNum i]" for i name
    by (simp add: entityKey_def closureCategory_def idColumn_def category_def getProp_def)
  show ?thesis
    using ct gm closureCategory_regular categories_keysSet categories_closure ent
      closure_finders [OF ct gm closureCategory_regular categories_keysSet categories_closure ent]
    by (simp add: rows key category_C_key category_paths)
qed

section \<open>The rows that the delete of a move removes\<close>

lemma js_join_nonempty:
  assumes "xs \<noteq> []" and "hd xs \<noteq> []"
  shows "js_join sep xs \<noteq> []"
proof (cases xs)
  case Nil
  then show ?thesis using assms by simp
next
  case (Cons x rest)
  then show ?thesis using assms by (cases rest) simp_all
qed

lemma delete_condition_text:
  "ds \<noteq> [] \<Longrightarrow> render esc gq (descendantWhereCondition md ds) \<noteq> []"
  by (cases ds) (simp_all add: descendantWhereCondition_def js_join_nonempty Let_def)

lemma fold_untouched:
  "k \<notin> fst ` set kvs \<Longrightarrow> fold (\<lambda>kv m. m(fst kv \<mapsto> snd kv)) kvs m k = m k"
  by (induction kvs arbitrary: m) simp_all

lemma fold_bound:
  assumes "\<forall>p \<in> set kvs. \<forall>q \<in> set kvs. fst p = fst q \<longrightarrow> snd p = snd q"
    and "(k, v) \<in> set kvs"
  shows "fold (\<lambda>kv m. m(fst kv \<mapsto> snd kv)) kvs m k = Some v"
  using assms
proof (induction kvs arbitrary: m)
  case Nil
  then show ?case by simp
next
  case (Cons p kvs)
  have step: "fold (\<lambda>kv m. m(fst kv \<mapsto> snd kv)) (p # kvs) m k
      = fold (\<lambda>kv m. m(fst kv \<mapsto> snd kv)) kvs (m(fst p \<mapsto> snd p)) k"
    by simp
  show ?case
  proof (cases "k \<in> fst ` set kvs")
    case True
    then obtain v' where v': "(k, v') \<in> set kvs"
      by force
    have "(k, v') \<in> set (p # kvs)"
      using v' by simp
    from Cons.prems(1) [rule_format, OF this Cons.prems(2)]
    have same: "v' = v" by simp
    have fn: "\<forall>p \<in> set kvs. \<forall>q \<in> set kvs. fst p = fst q \<longrightarrow> snd p = snd q"
      using Cons.prems(1) by (meson list.set_intros(2))
    show ?thesis
      unfolding step using Cons.IH [OF fn v' [unfolded same]] .
  next
    case False
    then have "(k, v) \<notin> set kvs"
      by force
    then have p: "p = (k, v)"
      using Cons.prems(2) by simp
    show ?thesis
      unfolding step fold_untouched [OF False] by (simp add: p)
  qed
qed

lemma nested_fold:
  "fold (\<lambda>e ps. fold (g e) cols ps) ds m = fold (\<lambda>(e, c). g e c) (List.product ds cols) m"
  by (induction ds arbitrary: m) (simp_all add: fold_map comp_def)

lemma delAncestorsParameters_pairs:
  "delAncestorsParameters md ds =
     fold (\<lambda>kv m. m(fst kv \<mapsto> snd kv))
       (map (\<lambda>(e, c). (parameterName c e, getEntityValue (referencedColumn c) e))
          (List.product ds (descendantColumns (closureJunctionTable md))))
       Map.empty"
proof -
  have "(\<lambda>kv m. m(fst kv \<mapsto> snd kv)) \<circ> (\<lambda>(e, c). (parameterName c e, getEntityValue (referencedColumn c) e))
      = (\<lambda>(e, c) ps'. ps'(parameterName c e \<mapsto> getEntityValue (referencedColumn c) e))"
    by (simp add: fun_eq_iff)
  then show ?thesis
    unfolding delAncestorsParameters_def Let_def parameterName_def [symmetric] fold_map
    by (simp only: nested_fold)
qed

lemma bound_parameter:
  assumes "collisionFree md ds" and "e \<in> set ds" and "c \<in> set (descendantColumns (closureJunctionTable md))"
  shows "getProp (delAncestorsParameters md ds) (parameterName c e) = getEntityValue (referencedColumn c) e"
proof -
  let ?kvs = "map (\<lambda>(e, c). (parameterName c e, getEntityValue (referencedColumn c) e))
          (List.product ds (descendantColumns (closureJunctionTable md)))"
  have fn: "\<forall>p \<in> set ?kvs. \<forall>q \<in> set ?kvs. fst p = fst q \<longrightarrow> snd p = snd q"
  proof (intro ballI impI)
    fix p q
    assume p: "p \<in> set ?kvs" and q: "q \<in> set ?kvs" and k: "fst p = fst q"
    from p obtain e1 c1 where p1: "p = (parameterName c1 e1, getEntityValue (referencedColumn c1) e1)"
      and m1: "e1 \<in> set ds" "c1 \<in> set (descendantColumns (closureJunctionTable md))"
      by auto
    from q obtain e2 c2 where q1: "q = (parameterName c2 e2, getEntityValue (referencedColumn c2) e2)"
      and m2: "e2 \<in> set ds" "c2 \<in> set (descendantColumns (closureJunctionTable md))"
      by auto
    from k p1 q1 have "parameterName c1 e1 = parameterName c2 e2" by simp
    with assms(1) [unfolded collisionFree_def, rule_format, OF m1(1) m2(1) m1(2) m2(2)]
    show "snd p = snd q" by (simp add: p1 q1)
  qed
  have mem: "(parameterName c e, getEntityValue (referencedColumn c) e) \<in> set ?kvs"
    using assms(2,3) by force
  have "delAncestorsParameters md ds (parameterName c e) = Some (getEntityValue (referencedColumn c) e)"
    unfolding delAncestorsParameters_pairs by (rule fold_bound [OF fn mem])
  then show ?thesis
    by (simp add: getProp_def)
qed


lemma holds_delete_condition:
  "holds db ps [[] \<mapsto> row] (descendantWhereCondition md ds)
     = (\<exists>e \<in> set ds. \<forall>c \<in> set (descendantColumns (closureJunctionTable md)).
          sql_eq (getProp row (propertyPath c)) (getProp ps (parameterName c e)))"
  by (simp add: descendantWhereCondition_def Let_def list_ex_iff list_all_iff parameterName_def)

text \<open>
  Claim C2, as first stated: the delete of a closure-table move targets exactly the
  junction rows whose descendant columns match one of the entity's descendants, and the
  entity itself is not a descendant target. It fails on the move of B in the test:
  \<open>findDescendants\<close> of B returns B itself, the delete binds the id 2 of B, and the
  rows it removes, (B,B) and (A,B), are the rows whose descendant is B.
\<close>

theorem delete_targets_entity_counterexample:
  "findDescendants testConnection closureCategory categories (testHeap 2) = Inr [category 2 ''B'']
   \<and> moveEntityQueriesBuilder testConnection closureCategory categories ''unused'' ''unused''
        (testHeap 2) (Some (testHeap 3)) =
       Inr [Delete ''gh_193_closure''
              (AnyOf [Parens (AllOf [Equals (BareColumn True ''id_descendant'') (Parameter ''id2'')])])
              [''id2'' \<mapsto> VNum 2],
            Insert ''gh_193_closure'' [closureRow 1 2, closureRow 3 2, closureRow 2 2]]
   \<and> deletedRows testConnection
        (Delete ''gh_193_closure''
           (AnyOf [Parens (AllOf [Equals (BareColumn True ''id_descendant'') (Parameter ''id2'')])])
           [''id2'' \<mapsto> VNum 2]) categories
       = [closureRow 2 2, closureRow 1 2]
   \<and> descendantKey closureCategory (closureRow 2 2) = entityKey closureCategory (testHeap 2)
   \<and> descendantKey closureCategory (closureRow 1 2) = entityKey closureCategory (testHeap 2)"
proof -
  have "testConnection\<lparr>execute := execute testConnection, save := save testConnection\<rparr> = testConnection"
    by simp
  then have plan: "moveEntityQueriesBuilder testConnection closureCategory categories ''unused'' ''unused''
        (testHeap 2) (Some (testHeap 3)) =
       Inr [Delete ''gh_193_closure''
              (AnyOf [Parens (AllOf [Equals (BareColumn True ''id_descendant'') (Parameter ''id2'')])])
              [''id2'' \<mapsto> VNum 2],
            Insert ''gh_193_closure'' [closureRow 1 2, closureRow 3 2, closureRow 2 2]]"
    using test_plan [where ex = "execute testConnection" and sv = "save testConnection"
        and al = "''unused''" and ct = "''unused''"]
    by simp
  have fd: "findDescendants testConnection closureCategory categories (testHeap 2) = Inr [category 2 ''B'']"
    by (simp add: findDescendants_def runSelect_def createDescendantsQueryBuilder_def
        query_builder_defs test_defs sql_eq_def)
  have del: "deletedRows testConnection
        (Delete ''gh_193_closure''
           (AnyOf [Parens (AllOf [Equals (BareColumn True ''id_descendant'') (Parameter ''id2'')])])
           [''id2'' \<mapsto> VNum 2]) categories
       = [closureRow 2 2, closureRow 1 2]"
    by (simp add: deletedRows_def quoted_def test_defs sql_eq_def getProp_def)
  have keys: "descendantKey closureCategory (closureRow 2 2) = entityKey closureCategory (testHeap 2)"
    "descendantKey closureCategory (closureRow 1 2) = entityKey closureCategory (testHeap 2)"
    by (simp_all add: descendantKey_def entityKey_def test_defs getProp_def)
  from fd plan del keys show ?thesis by blast
qed


text \<open>
  Claim C2, amended. For every closure-table move for which \<open>findDescendants\<close> of the
  entity returns at least one entity and no parameter name is bound to two different
  values, the delete removes exactly the junction rows whose descendant columns match
  one of the entities that \<open>findDescendants\<close> returned. When these include the entity
  itself (an entity with the entity's values in the referenced columns, as the reflexive
  pair of the junction table makes it), every row whose descendant columns match the
  entity itself is removed: the entity is a descendant target of the delete.
\<close>

theorem delete_targets:
  assumes ct: "treeType md = Some ''closure-table''"
    and ds: "findDescendants conn md db entity = Inr ds"
    and ne: "ds \<noteq> []"
    and cf: "collisionFree md ds"
  shows "\<exists>closures.
      moveEntityQueriesBuilder conn md db alias cta entity to =
        Inr [Delete (tableName (closureJunctionTable md)) (descendantWhereCondition md ds) (delAncestorsParameters md ds),
             Insert (tableName (closureJunctionTable md)) closures]
    \<and> deletedRows conn
          (Delete (tableName (closureJunctionTable md)) (descendantWhereCondition md ds) (delAncestorsParameters md ds)) db
        = filter (\<lambda>row. \<exists>e \<in> set ds. \<forall>c \<in> set (descendantColumns (closureJunctionTable md)).
                     sql_eq (getProp row (propertyPath c)) (getEntityValue (referencedColumn c) e))
            (db (tableName (closureJunctionTable md)))
    \<and> (\<forall>row \<in> set (db (tableName (closureJunctionTable md))).
          (\<exists>e \<in> set ds. \<forall>c \<in> set (descendantColumns (closureJunctionTable md)).
              getEntityValue (referencedColumn c) e = getEntityValue (referencedColumn c) entity)
          \<longrightarrow> (\<forall>c \<in> set (descendantColumns (closureJunctionTable md)).
                sql_eq (getProp row (propertyPath c)) (getEntityValue (referencedColumn c) entity))
          \<longrightarrow> row \<in> set (deletedRows conn
                (Delete (tableName (closureJunctionTable md)) (descendantWhereCondition md ds)
                   (delAncestorsParameters md ds)) db))"
proof -
  obtain as where as: "(case to of None \<Rightarrow> Inr [] | Some t \<Rightarrow> findAncestors conn md db t) = Inr as"
    using closure_fetch_ancestors [OF ct] by blast
  have plan: "moveEntityQueriesBuilder conn md db alias cta entity to =
        Inr [Delete (tableName (closureJunctionTable md)) (descendantWhereCondition md ds) (delAncestorsParameters md ds),
             Insert (tableName (closureJunctionTable md)) (closuresToInsert md (as @ [entity]) ds)]"
    by (rule closure_plan [OF ct ds as])
  have "(\<exists>e \<in> set ds. \<forall>c \<in> set (descendantColumns (closureJunctionTable md)).
            sql_eq (getProp row (propertyPath c)) (getProp (delAncestorsParameters md ds) (parameterName c e)))
      = (\<exists>e \<in> set ds. \<forall>c \<in> set (descendantColumns (closureJunctionTable md)).
            sql_eq (getProp row (propertyPath c)) (getEntityValue (referencedColumn c) e))" for row
    using bound_parameter [OF cf] by (simp cong: bex_cong ball_cong)
  then have rows: "deletedRows conn
          (Delete (tableName (closureJunctionTable md)) (descendantWhereCondition md ds) (delAncestorsParameters md ds)) db
        = filter (\<lambda>row. \<exists>e \<in> set ds. \<forall>c \<in> set (descendantColumns (closureJunctionTable md)).
                     sql_eq (getProp row (propertyPath c)) (getEntityValue (referencedColumn c) e))
            (db (tableName (closureJunctionTable md)))"
    by (simp add: deletedRows_def delete_condition_text [OF ne] holds_delete_condition)
  have self: "\<forall>row \<in> set (db (tableName (closureJunctionTable md))).
          (\<exists>e \<in> set ds. \<forall>c \<in> set (descendantColumns (closureJunctionTable md)).
              getEntityValue (referencedColumn c) e = getEntityValue (referencedColumn c) entity)
          \<longrightarrow> (\<forall>c \<in> set (descendantColumns (closureJunctionTable md)).
                sql_eq (getProp row (propertyPath c)) (getEntityValue (referencedColumn c) entity))
          \<longrightarrow> row \<in> set (deletedRows conn
                (Delete (tableName (closureJunctionTable md)) (descendantWhereCondition md ds)
                   (delAncestorsParameters md ds)) db)"
  proof (intro ballI impI)
    fix row
    assume row: "row \<in> set (db (tableName (closureJunctionTable md)))"
      and copy: "\<exists>e \<in> set ds. \<forall>c \<in> set (descendantColumns (closureJunctionTable md)).
              getEntityValue (referencedColumn c) e = getEntityValue (referencedColumn c) entity"
      and match: "\<forall>c \<in> set (descendantColumns (closureJunctionTable md)).
                sql_eq (getProp row (propertyPath c)) (getEntityValue (referencedColumn c) entity)"
    from copy obtain e where e: "e \<in> set ds"
      and same: "\<And>c. c \<in> set (descendantColumns (closureJunctionTable md)) \<Longrightarrow>
              getEntityValue (referencedColumn c) e = getEntityValue (referencedColumn c) entity"
      by blast
    have "\<forall>c \<in> set (descendantColumns (closureJunctionTable md)).
             sql_eq (getProp row (propertyPath c)) (getEntityValue (referencedColumn c) e)"
      using match same by simp
    with e row show "row \<in> set (deletedRows conn
                (Delete (tableName (closureJunctionTable md)) (descendantWhereCondition md ds)
                   (delAncestorsParameters md ds)) db)"
      unfolding rows by auto
  qed
  show ?thesis
    by (intro exI conjI) (rule plan, rule rows, rule self)
qed

theorem delete_targets_witness:
  "treeType closureCategory = Some ''closure-table''
   \<and> findDescendants testConnection closureCategory categories (testHeap 3) = Inr [category 3 ''C'', category 4 ''D'']
   \<and> [category 3 ''C'', category 4 ''D''] \<noteq> []
   \<and> collisionFree closureCategory [category 3 ''C'', category 4 ''D'']
   \<and> deletedRows testConnection
        (Delete ''gh_193_closure''
           (descendantWhereCondition closureCategory [category 3 ''C'', category 4 ''D''])
           (delAncestorsParameters closureCategory [category 3 ''C'', category 4 ''D''])) categories
       = [closureRow 3 3, closureRow 1 3, closureRow 4 4, closureRow 1 4, closureRow 3 4]"
proof -
  have ct: "treeType closureCategory = Some ''closure-table''"
    by (simp add: closureCategory_def)
  have fd: "findDescendants testConnection closureCategory categories (testHeap 3) = Inr [category 3 ''C'', category 4 ''D'']"
    by (simp add: findDescendants_def runSelect_def createDescendantsQueryBuilder_def
        query_builder_defs test_defs sql_eq_def)
  have ne: "[category 3 ''C'', category 4 ''D''] \<noteq> []"
    by simp
  have cf: "collisionFree closureCategory [category 3 ''C'', category 4 ''D'']"
    by (simp add: collisionFree_def parameterName_def closureCategory_def closureColumn_def idColumn_def
        category_def getEntityValue_def getProp_def string_of_int_def string_of_nat_digit digit_char_def)
  have tn: "tableName (closureJunctionTable closureCategory) = ''gh_193_closure''"
    by (simp add: closureCategory_def)
  from delete_targets [OF ct fd ne cf, of "''unused''" "''unused''" None]
  have "deletedRows testConnection
        (Delete ''gh_193_closure''
           (descendantWhereCondition closureCategory [category 3 ''C'', category 4 ''D''])
           (delAncestorsParameters closureCategory [category 3 ''C'', category 4 ''D''])) categories
       = filter (\<lambda>row. \<exists>e \<in> set [category 3 ''C'', category 4 ''D''].
                   \<forall>c \<in> set (descendantColumns (closureJunctionTable closureCategory)).
                     sql_eq (getProp row (propertyPath c)) (getEntityValue (referencedColumn c) e))
            (categories ''gh_193_closure'')"
    unfolding tn by blast
  also have "\<dots> = [closureRow 3 3, closureRow 1 3, closureRow 4 4, closureRow 1 4, closureRow 3 4]"
    by (simp add: test_defs sql_eq_def getProp_def getEntityValue_def)
  finally show ?thesis
    using ct fd ne cf by blast
qed

end
